theory Spec2Isabelle
  imports Main "HOL-Library.AList"
begin

section \<open>Errors and panics\<close>

text \<open>
  A Go \<^verbatim>\<open>error\<close> is a value of \<open>error\<close>: the API reasons the controller tests for
  (\<^verbatim>\<open>IsNotFound\<close>, \<^verbatim>\<open>IsConflict\<close>), any other API error, a plain message
  (\<^verbatim>\<open>fmt.Errorf\<close> without \<^verbatim>\<open>%w\<close>) and a wrapped error (\<^verbatim>\<open>fmt.Errorf("...: %w", err)\<close>).
  A run-time panic (index out of range, assignment to an entry of a nil map) is not an
  error value: it unwinds the stack, running deferred functions, so it is a separate
  constructor of \<open>failure\<close>.
\<close>

datatype error =
    NotFound
  | Conflict
  | AlreadyExists
  | ApiError string
  | Msg string
  | Wrapped string error

datatype failure = Err error | Panic string

fun IsNotFound :: "error \<Rightarrow> bool" where
  "IsNotFound NotFound = True"
| "IsNotFound (Wrapped m e) = IsNotFound e"
| "IsNotFound e = False"

fun IsConflict :: "error \<Rightarrow> bool" where
  "IsConflict Conflict = True"
| "IsConflict (Wrapped m e) = IsConflict e"
| "IsConflict e = False"

definition IgnoreNotFound :: "error \<Rightarrow> error option" where
  "IgnoreNotFound e = (if IsNotFound e then None else Some e)"

section \<open>Objects of the cluster\<close>

record OwnerReference =
  OwnerKind :: string
  OwnerName :: string
  Controller :: bool

text \<open>
  Every object embeds \<^verbatim>\<open>metav1.ObjectMeta\<close>; the records of the kinds extend this one,
  as the Go structs embed it. The code reads the deletion timestamp only through
  \<^verbatim>\<open>DeletionTimestamp.IsZero()\<close>, which is the field kept here.
\<close>

record ObjectMeta =
  Name :: string
  Namespace :: string
  Labels :: "(string \<times> string) list"
  Annotations :: "(string \<times> string) list"
  Finalizers :: "string list"
  DeletionTimestamp_IsZero :: bool
  OwnerReferences :: "OwnerReference list"

datatype ContainerState =
    ContainerStateEmpty
  | ContainerStateWaiting string
  | ContainerStateRunning
  | ContainerStateTerminated int string

datatype DevboxState = DevboxStateRunning | DevboxStateStopped | DevboxStateOther string

datatype NetworkType = NetworkTypeNodePort | NetworkTypeWebSocket | NetworkTypeOther string

datatype CommitStatus = CommitStatusPending | CommitStatusSuccess | CommitStatusFailed

datatype PodPhase = PodPending | PodRunning | PodSucceeded | PodFailed | PodUnknown | PodPhaseEmpty

datatype ServiceType = ServiceTypeClusterIP | ServiceTypeNodePort | ServiceTypeOther string

record EnvVar =
  Env_Name :: string
  Env_Value :: string

record ContainerPort =
  Port_Name :: string
  Port_ContainerPort :: int
  Port_Protocol :: string

record CommitHistory =
  Commit_Image :: string
  Commit_Time :: int
  Commit_Pod :: string
  Commit_Status :: CommitStatus
  Commit_PredicatedStatus :: CommitStatus

record RuntimeRef =
  RuntimeRef_Name :: string
  RuntimeRef_Namespace :: string

record AutoShutdownSpec =
  AutoShutdown_Enable :: bool
  AutoShutdown_Time :: string

record NetworkSpec =
  NetworkSpec_Type :: NetworkType
  ExtraPorts :: "ContainerPort list"

record DevboxSpec =
  State :: DevboxState
  NetworkSpec :: NetworkSpec
  AutoShutdownSpec :: AutoShutdownSpec
  RuntimeRef :: RuntimeRef
  ExtraEnvs :: "EnvVar list"
  ExtraVolumes :: "string list"
  ExtraVolumeMounts :: "string list"
  Tolerations :: "string list"
  Affinity :: "string option"

record NetworkStatus =
  Network_Type :: NetworkType
  Network_NodePort :: int
  Network_WebSocket :: string

record DevboxStatus =
  Network :: NetworkStatus
  Phase :: string
  Status_State :: ContainerState
  LastTerminationState :: ContainerState
  Status_CommitHistory :: "CommitHistory list"

record Devbox = ObjectMeta +
  Spec :: DevboxSpec
  Status :: DevboxStatus

record Container =
  Container_Name :: string
  Container_Image :: string
  Container_Env :: "EnvVar list"
  Container_Ports :: "ContainerPort list"
  Container_VolumeMounts :: "string list"
  Container_WorkingDir :: string
  Container_Command :: "string list"
  Container_Args :: "string list"
  Container_Resources :: "(string \<times> string) list"

record PodSpec =
  TerminationGracePeriodSeconds :: "int option"
  AutomountServiceAccountToken :: "bool option"
  RestartPolicy :: string
  Hostname :: string
  Containers :: "Container list"
  Volumes :: "string list"
  Pod_Tolerations :: "string list"
  Pod_Affinity :: "string option"

record ContainerStatus =
  ContainerStatus_State :: ContainerState

record PodStatus =
  Pod_Phase :: PodPhase
  ContainerStatuses :: "ContainerStatus list"

record Pod = ObjectMeta +
  Pod_Spec :: PodSpec
  Pod_Status :: PodStatus

record ServicePort =
  ServicePort_Name :: string
  ServicePort_Port :: int
  ServicePort_TargetPort :: int
  ServicePort_Protocol :: string
  ServicePort_NodePort :: int

record ServiceSpec =
  Selector :: "(string \<times> string) list"
  Service_Type :: ServiceType
  Service_Ports :: "ServicePort list"

record Service = ObjectMeta +
  Service_Spec :: ServiceSpec

text \<open>
  A Go map is nil or a table; reading a nil map finds nothing, writing to it panics.
  \<open>Data = None\<close> is the nil map.
\<close>

record Secret = ObjectMeta +
  Data :: "(string \<times> string) list option"

record RuntimeConfig =
  Config_Image :: string
  Config_Ports :: "ContainerPort list"
  Config_Env :: "EnvVar list"
  Config_Volumes :: "string list"
  Config_VolumeMounts :: "string list"

record Runtime = ObjectMeta +
  Config :: RuntimeConfig

record PodTemplateSpec =
  Template_Meta :: ObjectMeta
  Template_Spec :: PodSpec

record DeploymentSpec =
  Replicas :: "int option"
  MatchLabels :: "(string \<times> string) list"
  Template :: PodTemplateSpec

record Deployment = ObjectMeta +
  Deployment_Spec :: DeploymentSpec

record HTTPIngressPath =
  Path :: string
  PathType :: string
  Backend_Service_Name :: string
  Backend_Service_Port :: int

record IngressRule =
  Host :: string
  Paths :: "HTTPIngressPath list"

record IngressSpec =
  IngressClassName :: string
  Rules :: "IngressRule list"

record Ingress = ObjectMeta +
  Ingress_Spec :: IngressSpec

section \<open>The object store, the event sink, the clock and the random source\<close>

datatype Kind = KDevbox | KSecret | KPod | KService | KDeployment | KIngress | KRuntime

datatype EventType = EventTypeNormal | EventTypeWarning

datatype message = Text string | ErrorText error

text \<open>
  Every call of the client and every recorded event is appended to \<open>trace\<close>, in the
  order the pass makes them.
\<close>

datatype action =
    AGet Kind string string
  | AList Kind string "(string \<times> string) list"
  | ACreate Kind string string
  | AUpdate Kind string string
  | AStatusUpdate Kind string string
  | ADelete Kind string string
  | ADeleteAllOf Kind string "(string \<times> string) list"
  | AEvent EventType string message

text \<open>
  The world outside the controller. \<open>script\<close> is the environment's answer to the next
  client calls, one entry per call: \<open>Some e\<close> makes the call fail with \<open>e\<close> and
  leaves the store alone (a write conflict, a quota refusal, a transport error),
  \<open>None\<close> (and an exhausted script) lets the store answer. \<open>randoms\<close> supplies the
  results of \<^verbatim>\<open>rand.String\<close>, \<open>clock\<close> the readings of
  \<^verbatim>\<open>time.Now()\<close> in nanoseconds, \<open>nodePorts\<close> the ports the platform assigns to
  services of type NodePort, \<open>keypairs\<close> the results of SSH key generation.
\<close>

record world =
  devboxes :: "Devbox list"
  secrets :: "Secret list"
  pods :: "Pod list"
  services :: "Service list"
  deployments :: "Deployment list"
  ingresses :: "Ingress list"
  runtimes :: "Runtime list"
  script :: "error option list"
  randoms :: "string list"
  clock :: "int list"
  nodePorts :: "int list"
  keypairs :: "(error + string \<times> string) list"
  trace :: "action list"

definition next_fault :: "error option list \<Rightarrow> error option" where
  "next_fault sc = (case sc of [] \<Rightarrow> None | f # fs \<Rightarrow> f)"

definition fault :: "world \<Rightarrow> error option" where
  "fault w = next_fault (script w)"

definition tick :: "action \<Rightarrow> world \<Rightarrow> world" where
  "tick a w = w\<lparr>script := tl (script w), trace := trace w @ [a]\<rparr>"

definition Eventf :: "EventType \<Rightarrow> string \<Rightarrow> message \<Rightarrow> world \<Rightarrow> world" where
  "Eventf t reason m w = w\<lparr>trace := trace w @ [AEvent t reason m]\<rparr>"

definition rand_String :: "nat \<Rightarrow> world \<Rightarrow> string \<times> world" where
  "rand_String n w =
     (case randoms w of
        [] \<Rightarrow> (replicate n (CHR ''b''), w)
      | s # ss \<Rightarrow> (s, w\<lparr>randoms := ss\<rparr>))"

definition time_Now :: "world \<Rightarrow> int \<times> world" where
  "time_Now w = (case clock w of [] \<Rightarrow> (0, w) | t # ts \<Rightarrow> (t, w\<lparr>clock := ts\<rparr>))"

subsection \<open>What the store does with a call it accepts\<close>

definition has_key :: "string \<Rightarrow> string \<Rightarrow> 'a ObjectMeta_scheme \<Rightarrow> bool" where
  "has_key ns n x = (Namespace x = ns \<and> Name x = n)"

definition MatchingLabels :: "(string \<times> string) list \<Rightarrow> 'a ObjectMeta_scheme \<Rightarrow> bool" where
  "MatchingLabels sel x = list_all (\<lambda>kv. map_of (Labels x) (fst kv) = Some (snd kv)) sel"

definition selected :: "string \<Rightarrow> (string \<times> string) list \<Rightarrow> 'a ObjectMeta_scheme \<Rightarrow> bool" where
  "selected ns sel x = (Namespace x = ns \<and> MatchingLabels sel x)"

definition lookup :: "string \<Rightarrow> string \<Rightarrow> 'a ObjectMeta_scheme list \<Rightarrow> 'a ObjectMeta_scheme option" where
  "lookup ns n xs = find (has_key ns n) xs"

definition replace :: "'a ObjectMeta_scheme \<Rightarrow> 'a ObjectMeta_scheme list \<Rightarrow> 'a ObjectMeta_scheme list" where
  "replace x xs = map (\<lambda>y. if has_key (Namespace x) (Name x) y then x else y) xs"

definition remove :: "string \<Rightarrow> string \<Rightarrow> 'a ObjectMeta_scheme list \<Rightarrow> 'a ObjectMeta_scheme list" where
  "remove ns n xs = filter (\<lambda>y. \<not> has_key ns n y) xs"

text \<open>
  An update keeps the stored deletion timestamp; an object that is being deleted goes
  once its last finalizer is removed. A delete of an object with finalizers only marks
  it.
\<close>

definition store_update ::
  "('a ObjectMeta_scheme \<Rightarrow> 'a ObjectMeta_scheme \<Rightarrow> 'a ObjectMeta_scheme) \<Rightarrow> 'a ObjectMeta_scheme \<Rightarrow>
   'a ObjectMeta_scheme list \<Rightarrow> error + ('a ObjectMeta_scheme \<times> 'a ObjectMeta_scheme list)" where
  "store_update mrg x xs =
     (case lookup (Namespace x) (Name x) xs of
        None \<Rightarrow> Inl NotFound
      | Some old \<Rightarrow>
          (let x' = (mrg old x)\<lparr>DeletionTimestamp_IsZero := DeletionTimestamp_IsZero old\<rparr> in
           if \<not> DeletionTimestamp_IsZero old \<and> Finalizers x' = []
           then Inr (x', remove (Namespace x) (Name x) xs)
           else Inr (x', replace x' xs)))"

definition store_delete :: "string \<Rightarrow> string \<Rightarrow> 'a ObjectMeta_scheme list \<Rightarrow> error + 'a ObjectMeta_scheme list" where
  "store_delete ns n xs =
     (case lookup ns n xs of
        None \<Rightarrow> Inl NotFound
      | Some old \<Rightarrow>
          if Finalizers old = [] then Inr (remove ns n xs)
          else Inr (replace (old\<lparr>DeletionTimestamp_IsZero := False\<rparr>) xs))"

definition store_delete_all :: "string \<Rightarrow> (string \<times> string) list \<Rightarrow> 'a ObjectMeta_scheme list \<Rightarrow> 'a ObjectMeta_scheme list" where
  "store_delete_all ns sel xs =
     map (\<lambda>y. if selected ns sel y then y\<lparr>DeletionTimestamp_IsZero := False\<rparr> else y)
       (filter (\<lambda>y. \<not> (selected ns sel y \<and> Finalizers y = [])) xs)"

subsection \<open>The client\<close>

definition client_Get ::
  "Kind \<Rightarrow> (world \<Rightarrow> 'a ObjectMeta_scheme list) \<Rightarrow> string \<Rightarrow> string \<Rightarrow> world \<Rightarrow>
   (error + 'a ObjectMeta_scheme) \<times> world" where
  "client_Get k sel ns n w =
     (case fault w of
        Some e \<Rightarrow> (Inl e, tick (AGet k ns n) w)
      | None \<Rightarrow>
          (case lookup ns n (sel w) of
             None \<Rightarrow> (Inl NotFound, tick (AGet k ns n) w)
           | Some x \<Rightarrow> (Inr x, tick (AGet k ns n) w)))"

definition client_List ::
  "Kind \<Rightarrow> (world \<Rightarrow> 'a ObjectMeta_scheme list) \<Rightarrow> string \<Rightarrow> (string \<times> string) list \<Rightarrow> world \<Rightarrow>
   (error + 'a ObjectMeta_scheme list) \<times> world" where
  "client_List k sel ns ls w =
     (case fault w of
        Some e \<Rightarrow> (Inl e, tick (AList k ns ls) w)
      | None \<Rightarrow> (Inr (filter (selected ns ls) (sel w)), tick (AList k ns ls) w))"

definition client_Create ::
  "Kind \<Rightarrow> (world \<Rightarrow> 'a ObjectMeta_scheme list) \<Rightarrow>
   (('a ObjectMeta_scheme list \<Rightarrow> 'a ObjectMeta_scheme list) \<Rightarrow> world \<Rightarrow> world) \<Rightarrow>
   'a ObjectMeta_scheme \<Rightarrow> world \<Rightarrow> (error + 'a ObjectMeta_scheme) \<times> world" where
  "client_Create k sel upd x w =
     (case fault w of
        Some e \<Rightarrow> (Inl e, tick (ACreate k (Namespace x) (Name x)) w)
      | None \<Rightarrow>
          (case lookup (Namespace x) (Name x) (sel w) of
             Some y \<Rightarrow> (Inl AlreadyExists, tick (ACreate k (Namespace x) (Name x)) w)
           | None \<Rightarrow> (Inr x, upd (\<lambda>xs. xs @ [x]) (tick (ACreate k (Namespace x) (Name x)) w))))"

definition client_Update ::
  "Kind \<Rightarrow> (world \<Rightarrow> 'a ObjectMeta_scheme list) \<Rightarrow>
   (('a ObjectMeta_scheme list \<Rightarrow> 'a ObjectMeta_scheme list) \<Rightarrow> world \<Rightarrow> world) \<Rightarrow>
   ('a ObjectMeta_scheme \<Rightarrow> 'a ObjectMeta_scheme \<Rightarrow> 'a ObjectMeta_scheme) \<Rightarrow>
   'a ObjectMeta_scheme \<Rightarrow> world \<Rightarrow> (error + 'a ObjectMeta_scheme) \<times> world" where
  "client_Update k sel upd mrg x w =
     (case fault w of
        Some e \<Rightarrow> (Inl e, tick (AUpdate k (Namespace x) (Name x)) w)
      | None \<Rightarrow>
          (case store_update mrg x (sel w) of
             Inl e \<Rightarrow> (Inl e, tick (AUpdate k (Namespace x) (Name x)) w)
           | Inr r \<Rightarrow> (Inr (fst r), upd (\<lambda>xs. snd r) (tick (AUpdate k (Namespace x) (Name x)) w))))"

definition client_Delete ::
  "Kind \<Rightarrow> (world \<Rightarrow> 'a ObjectMeta_scheme list) \<Rightarrow>
   (('a ObjectMeta_scheme list \<Rightarrow> 'a ObjectMeta_scheme list) \<Rightarrow> world \<Rightarrow> world) \<Rightarrow>
   string \<Rightarrow> string \<Rightarrow> world \<Rightarrow> error option \<times> world" where
  "client_Delete k sel upd ns n w =
     (case fault w of
        Some e \<Rightarrow> (Some e, tick (ADelete k ns n) w)
      | None \<Rightarrow>
          (case store_delete ns n (sel w) of
             Inl e \<Rightarrow> (Some e, tick (ADelete k ns n) w)
           | Inr xs' \<Rightarrow> (None, upd (\<lambda>xs. xs') (tick (ADelete k ns n) w))))"

definition client_DeleteAllOf ::
  "Kind \<Rightarrow> (world \<Rightarrow> 'a ObjectMeta_scheme list) \<Rightarrow>
   (('a ObjectMeta_scheme list \<Rightarrow> 'a ObjectMeta_scheme list) \<Rightarrow> world \<Rightarrow> world) \<Rightarrow>
   string \<Rightarrow> (string \<times> string) list \<Rightarrow> world \<Rightarrow> error option \<times> world" where
  "client_DeleteAllOf k sel upd ns ls w =
     (case fault w of
        Some e \<Rightarrow> (Some e, tick (ADeleteAllOf k ns ls) w)
      | None \<Rightarrow> (None, upd (store_delete_all ns ls) (tick (ADeleteAllOf k ns ls) w)))"


section \<open>Library functions the controller calls\<close>

subsection \<open>controllerutil\<close>

definition AddFinalizer :: "'a ObjectMeta_scheme \<Rightarrow> string \<Rightarrow> 'a ObjectMeta_scheme \<times> bool" where
  "AddFinalizer o' finalizer =
     (if finalizer \<in> set (Finalizers o') then (o', False)
      else (o'\<lparr>Finalizers := Finalizers o' @ [finalizer]\<rparr>, True))"

definition RemoveFinalizer :: "'a ObjectMeta_scheme \<Rightarrow> string \<Rightarrow> 'a ObjectMeta_scheme \<times> bool" where
  "RemoveFinalizer o' finalizer =
     (o'\<lparr>Finalizers := filter (\<lambda>f. f \<noteq> finalizer) (Finalizers o')\<rparr>,
      length (filter (\<lambda>f. f \<noteq> finalizer) (Finalizers o')) \<noteq> length (Finalizers o'))"

definition referSameObject :: "OwnerReference \<Rightarrow> OwnerReference \<Rightarrow> bool" where
  "referSameObject a b = (OwnerKind a = OwnerKind b \<and> OwnerName a = OwnerName b)"

definition upsertOwnerRef :: "OwnerReference \<Rightarrow> OwnerReference list \<Rightarrow> OwnerReference list" where
  "upsertOwnerRef ref refs =
     (if list_ex (referSameObject ref) refs
      then map (\<lambda>x. if referSameObject x ref then ref else x) refs
      else refs @ [ref])"

text \<open>
  The owner is always a devbox here. The call fails when owner and object are in
  different namespaces, and when the object already has another controller.
\<close>

definition SetControllerReference :: "Devbox \<Rightarrow> 'a ObjectMeta_scheme \<Rightarrow> error + 'a ObjectMeta_scheme" where
  "SetControllerReference owner x =
     (let ref = \<lparr>OwnerKind = ''Devbox'', OwnerName = Name owner, Controller = True\<rparr> in
      if Namespace owner \<noteq> [] \<and> Namespace x = [] then
        Inl (Msg ''cluster-scoped resource must not have a namespace-scoped owner'')
      else if Namespace owner \<noteq> [] \<and> Namespace owner \<noteq> Namespace x then
        Inl (Msg ''cross-namespace owner references are disallowed'')
      else
        (case find Controller (OwnerReferences x) of
           Some existing \<Rightarrow>
             if referSameObject existing ref
             then Inr (x\<lparr>OwnerReferences := upsertOwnerRef ref (OwnerReferences x)\<rparr>)
             else Inl (Msg ''Object is already owned by another controller'')
         | None \<Rightarrow> Inr (x\<lparr>OwnerReferences := upsertOwnerRef ref (OwnerReferences x)\<rparr>)))"

text \<open>
  \<^verbatim>\<open>CreateOrUpdate\<close> reads the object under the key of \<open>x\<close>. When there is none it
  applies the mutation to \<open>x\<close> and creates it. When there is one, the stored object
  replaces \<open>x\<close>, the mutation is applied to it, and it is written back only when the
  mutation changed it. A mutation must not change the key.
\<close>

definition mutate ::
  "('a ObjectMeta_scheme \<Rightarrow> failure + 'a ObjectMeta_scheme) \<Rightarrow> 'a ObjectMeta_scheme \<Rightarrow>
   failure + 'a ObjectMeta_scheme" where
  "mutate f x =
     (case f x of
        Inl e \<Rightarrow> Inl e
      | Inr y \<Rightarrow>
          if has_key (Namespace x) (Name x) y then Inr y
          else Inl (Err (Msg ''MutateFn cannot mutate object name and/or object namespace'')))"

definition CreateOrUpdate ::
  "Kind \<Rightarrow> (world \<Rightarrow> 'a ObjectMeta_scheme list) \<Rightarrow>
   (('a ObjectMeta_scheme list \<Rightarrow> 'a ObjectMeta_scheme list) \<Rightarrow> world \<Rightarrow> world) \<Rightarrow>
   ('a ObjectMeta_scheme \<Rightarrow> 'a ObjectMeta_scheme \<Rightarrow> 'a ObjectMeta_scheme) \<Rightarrow>
   'a ObjectMeta_scheme \<Rightarrow> ('a ObjectMeta_scheme \<Rightarrow> failure + 'a ObjectMeta_scheme) \<Rightarrow> world \<Rightarrow>
   (failure + 'a ObjectMeta_scheme) \<times> world" where
  "CreateOrUpdate k sel upd mrg x f w =
     (case client_Get k sel (Namespace x) (Name x) w of
        (Inl e, w1) \<Rightarrow>
          if \<not> IsNotFound e then (Inl (Err e), w1)
          else
            (case mutate f x of
               Inl e' \<Rightarrow> (Inl e', w1)
             | Inr y \<Rightarrow>
                 (case client_Create k sel upd y w1 of
                    (Inl e', w2) \<Rightarrow> (Inl (Err e'), w2)
                  | (Inr z, w2) \<Rightarrow> (Inr z, w2)))
      | (Inr existing, w1) \<Rightarrow>
          (case mutate f existing of
             Inl e' \<Rightarrow> (Inl e', w1)
           | Inr y \<Rightarrow>
               if existing = y then (Inr y, w1)
               else
                 (case client_Update k sel upd mrg y w1 of
                    (Inl e', w2) \<Rightarrow> (Inl (Err e'), w2)
                  | (Inr z, w2) \<Rightarrow> (Inr z, w2))))"

subsection \<open>retry\<close>

text \<open>
  \<^verbatim>\<open>retry.OnError(backoff, retriable, fn)\<close> runs \<open>fn\<close> at most \<open>backoff.Steps\<close> times: it
  stops at the first success and at the first error that is not retriable, and after the
  last attempt it returns the last retriable error. \<open>fn\<close> is a closure: \<open>s\<close> is the
  state of the variables it captures. A panic is not caught.
\<close>

fun OnError ::
  "nat \<Rightarrow> (error \<Rightarrow> bool) \<Rightarrow> ('s \<Rightarrow> world \<Rightarrow> failure option \<times> 's \<times> world) \<Rightarrow> error option \<Rightarrow>
   's \<Rightarrow> world \<Rightarrow> failure option \<times> 's \<times> world" where
  "OnError 0 retriable fn lastErr s w =
     (case lastErr of
        None \<Rightarrow> (Some (Err (Msg ''timed out waiting for the condition'')), s, w)
      | Some e \<Rightarrow> (Some (Err e), s, w))"
| "OnError (Suc n) retriable fn lastErr s w =
     (case fn s w of
        (None, s', w') \<Rightarrow> (None, s', w')
      | (Some (Panic m), s', w') \<Rightarrow> (Some (Panic m), s', w')
      | (Some (Err e), s', w') \<Rightarrow>
          if retriable e then OnError n retriable fn (Some e) s' w'
          else (Some (Err e), s', w'))"

definition DefaultRetry_Steps :: nat where
  "DefaultRetry_Steps = 5"

definition RetryOnConflict ::
  "nat \<Rightarrow> ('s \<Rightarrow> world \<Rightarrow> failure option \<times> 's \<times> world) \<Rightarrow> 's \<Rightarrow> world \<Rightarrow> failure option \<times> 's \<times> world" where
  "RetryOnConflict steps fn s w = OnError steps IsConflict fn None s w"

subsection \<open>Maps and strings of Go\<close>

definition map_index :: "(string \<times> string) list option \<Rightarrow> string \<Rightarrow> string option" where
  "map_index m k = (case m of None \<Rightarrow> None | Some al \<Rightarrow> map_of al k)"

definition map_assign ::
  "(string \<times> string) list option \<Rightarrow> string \<Rightarrow> string \<Rightarrow> failure + (string \<times> string) list option" where
  "map_assign m k v =
     (case m of
        None \<Rightarrow> Inl (Panic ''assignment to entry in nil map'')
      | Some al \<Rightarrow> Inr (Some (AList.update k v al)))"

fun decimal :: "nat \<Rightarrow> string" where
  "decimal n =
     (if n < 10 then [char_of (48 + n)]
      else decimal (n div 10) @ [char_of (48 + n mod 10)])"

definition Itoa :: "int \<Rightarrow> string" where
  "Itoa i = (if i < 0 then CHR ''-'' # decimal (nat (- i)) else decimal (nat i))"

definition FormatBool :: "bool \<Rightarrow> string" where
  "FormatBool b = (if b then ''true'' else ''false'')"

section \<open>The reconciler\<close>

text \<open>The fields of \<^verbatim>\<open>DevboxReconciler\<close> that are configuration, read once at start-up.\<close>

record DevboxReconciler =
  CommitImageRegistry :: string
  RequestEphemeralStorage :: string
  LimitEphemeralStorage :: string
  WebSocketImage :: string
  DebugMode :: bool
  WebsocketProxyDomain :: string
  IngressClass :: string
  EnableAutoShutdown :: bool
  ShutdownServerKey :: string
  ShutdownServerAddr :: string

text \<open>
  The packages \<^verbatim>\<open>helper\<close>, \<^verbatim>\<open>label\<close> and \<^verbatim>\<open>api/v1alpha1\<close> of the repository are not
  among the sources. Their functions and constants that the controller uses are
  parameters of the model, the fields of \<open>helper\<close>; a helper that writes through a
  pointer returns the object it writes. \<open>SignedString\<close> (the JWT library) and
  \<open>Format\<close> (\<^verbatim>\<open>time.Time.Format\<close>) are parameters as well.
\<close>

record DevboxClaims =
  DevboxName :: string
  NameSpace :: string
  IssuedAt :: int
  ExpiresAt :: int
  Issuer :: string

datatype SigningMethod = SigningMethodHS256

record helper =
  FinalizerName :: string
  DefaultManagedBy :: string
  DevBoxPartOf :: string
  RecommendedLabels :: "string \<Rightarrow> string \<Rightarrow> string \<Rightarrow> (string \<times> string) list"
  IsExceededQuotaError :: "error \<Rightarrow> bool"
  GenerateDevboxPhase :: "Devbox \<Rightarrow> Pod list \<Rightarrow> string"
  UpdateDevboxStatus :: "Devbox \<Rightarrow> Devbox \<Rightarrow> Devbox"
  UpdatePredicatedCommitStatus :: "Devbox \<Rightarrow> Pod \<Rightarrow> Devbox"
  UpdateCommitHistory :: "Devbox \<Rightarrow> Pod \<Rightarrow> bool \<Rightarrow> Devbox"
  PodMatchExpectations :: "Pod \<Rightarrow> Pod \<Rightarrow> bool"
  GeneratePodLabels :: "Devbox \<Rightarrow> Runtime \<Rightarrow> (string \<times> string) list"
  GeneratePodAnnotations :: "Devbox \<Rightarrow> Runtime \<Rightarrow> (string \<times> string) list"
  GenerateProxyPodLabels :: "Devbox \<Rightarrow> Runtime \<Rightarrow> (string \<times> string) list"
  GenerateProxyPodResourceRequirements :: "(string \<times> string) list"
  GenerateDevboxEnvVars :: "Devbox \<Rightarrow> CommitHistory \<Rightarrow> EnvVar list"
  GetLastSuccessCommitImageName :: "Devbox \<Rightarrow> Runtime \<Rightarrow> string"
  GenerateSSHVolume :: "Devbox \<Rightarrow> string"
  GenerateSSHVolumeMounts :: "string list"
  GenerateWorkingDir :: "Devbox \<Rightarrow> Runtime \<Rightarrow> string"
  GenerateCommand :: "Devbox \<Rightarrow> Runtime \<Rightarrow> string list"
  GenerateDevboxArgs :: "Devbox \<Rightarrow> Runtime \<Rightarrow> string list"
  GenerateResourceRequirements :: "Devbox \<Rightarrow> string \<Rightarrow> string \<Rightarrow> (string \<times> string) list"
  SignedString :: "SigningMethod \<Rightarrow> string \<Rightarrow> DevboxClaims \<Rightarrow> error + string"
  Format :: "int \<Rightarrow> string \<Rightarrow> string"

definition GenerateSSHKeyPair :: "world \<Rightarrow> (error + string \<times> string) \<times> world" where
  "GenerateSSHKeyPair w =
     (case keypairs w of
        [] \<Rightarrow> (Inl (Msg ''key generation failed''), w)
      | k # ks \<Rightarrow> (k, w\<lparr>keypairs := ks\<rparr>))"

definition recLabelsOf :: "helper \<Rightarrow> Devbox \<Rightarrow> (string \<times> string) list" where
  "recLabelsOf h devbox = RecommendedLabels h (Name devbox) (DefaultManagedBy h) (DevBoxPartOf h)"


subsection \<open>The typed calls of the client\<close>

definition devbox_merge :: "Devbox \<Rightarrow> Devbox \<Rightarrow> Devbox" where
  "devbox_merge old new = new\<lparr>Status := Status old\<rparr>"

definition devbox_status_merge :: "Devbox \<Rightarrow> Devbox \<Rightarrow> Devbox" where
  "devbox_status_merge old new = old\<lparr>Status := Status new\<rparr>"

definition pod_merge :: "Pod \<Rightarrow> Pod \<Rightarrow> Pod" where
  "pod_merge old new = new\<lparr>Pod_Status := Pod_Status old\<rparr>"

definition plain_merge :: "'a \<Rightarrow> 'a \<Rightarrow> 'a" where
  "plain_merge old new = new"

text \<open>
  The devbox and the pod have a status subresource: \<^verbatim>\<open>Update\<close> writes metadata and
  spec and keeps the stored status, \<^verbatim>\<open>Status().Update\<close> writes the status and keeps
  the rest. Either call, when it succeeds, overwrites the caller's object with the
  stored one.
\<close>

definition Get_Devbox :: "string \<Rightarrow> string \<Rightarrow> world \<Rightarrow> (error + Devbox) \<times> world" where
  "Get_Devbox = client_Get KDevbox devboxes"

definition Update_Devbox :: "Devbox \<Rightarrow> world \<Rightarrow> (error + Devbox) \<times> world" where
  "Update_Devbox = client_Update KDevbox devboxes devboxes_update devbox_merge"

definition Status_Update :: "Devbox \<Rightarrow> world \<Rightarrow> (error + Devbox) \<times> world" where
  "Status_Update x w =
     (case fault w of
        Some e \<Rightarrow> (Inl e, tick (AStatusUpdate KDevbox (Namespace x) (Name x)) w)
      | None \<Rightarrow>
          (case store_update devbox_status_merge x (devboxes w) of
             Inl e \<Rightarrow> (Inl e, tick (AStatusUpdate KDevbox (Namespace x) (Name x)) w)
           | Inr r \<Rightarrow>
               (Inr (fst r),
                devboxes_update (\<lambda>xs. snd r) (tick (AStatusUpdate KDevbox (Namespace x) (Name x)) w))))"

definition Get_Secret :: "string \<Rightarrow> string \<Rightarrow> world \<Rightarrow> (error + Secret) \<times> world" where
  "Get_Secret = client_Get KSecret secrets"

definition Update_Secret :: "Secret \<Rightarrow> world \<Rightarrow> (error + Secret) \<times> world" where
  "Update_Secret = client_Update KSecret secrets secrets_update plain_merge"

definition Create_Secret :: "Secret \<Rightarrow> world \<Rightarrow> (error + Secret) \<times> world" where
  "Create_Secret = client_Create KSecret secrets secrets_update"

definition List_Pod :: "string \<Rightarrow> (string \<times> string) list \<Rightarrow> world \<Rightarrow> (error + Pod list) \<times> world" where
  "List_Pod = client_List KPod pods"

text \<open>The API server starts a created pod in phase Pending with no container status.\<close>

definition Create_Pod :: "Pod \<Rightarrow> world \<Rightarrow> (error + Pod) \<times> world" where
  "Create_Pod x =
     client_Create KPod pods pods_update
       (x\<lparr>Pod_Status := \<lparr>Pod_Phase = PodPending, ContainerStatuses = []\<rparr>\<rparr>)"

definition Update_Pod :: "Pod \<Rightarrow> world \<Rightarrow> (error + Pod) \<times> world" where
  "Update_Pod = client_Update KPod pods pods_update pod_merge"

definition Delete_Pod :: "Pod \<Rightarrow> world \<Rightarrow> error option \<times> world" where
  "Delete_Pod x = client_Delete KPod pods pods_update (Namespace x) (Name x)"

definition Get_Runtime :: "string \<Rightarrow> string \<Rightarrow> world \<Rightarrow> (error + Runtime) \<times> world" where
  "Get_Runtime = client_Get KRuntime runtimes"

subsection \<open>syncSecret\<close>

definition wrap :: "string \<Rightarrow> error \<Rightarrow> failure" where
  "wrap m e = Err (Wrapped m e)"

text \<open>The two backfills of an existing secret, in the order of the source.\<close>

definition backfillJWTSecret :: "Secret \<Rightarrow> world \<Rightarrow> (failure + Secret) \<times> world" where
  "backfillJWTSecret devboxSecret w =
     (case map_index (Data devboxSecret) ''SEALOS_DEVBOX_JWT_SECRET'' of
        Some v \<Rightarrow> (Inr devboxSecret, w)
      | None \<Rightarrow>
          (case rand_String 32 w of
             (s, w1) \<Rightarrow>
               (case map_assign (Data devboxSecret) ''SEALOS_DEVBOX_JWT_SECRET'' s of
                  Inl p \<Rightarrow> (Inl p, w1)
                | Inr d \<Rightarrow>
                    (case Update_Secret (devboxSecret\<lparr>Data := d\<rparr>) w1 of
                       (Inl e, w2) \<Rightarrow> (Inl (wrap ''failed to update secret'' e), w2)
                     | (Inr x, w2) \<Rightarrow> (Inr x, w2)))))"

definition backfillAuthorizedKeys :: "Secret \<Rightarrow> world \<Rightarrow> (failure + Secret) \<times> world" where
  "backfillAuthorizedKeys devboxSecret w =
     (case map_index (Data devboxSecret) ''SEALOS_DEVBOX_AUTHORIZED_KEYS'' of
        Some v \<Rightarrow> (Inr devboxSecret, w)
      | None \<Rightarrow>
          (case map_assign (Data devboxSecret) ''SEALOS_DEVBOX_AUTHORIZED_KEYS''
                  (case map_index (Data devboxSecret) ''SEALOS_DEVBOX_PUBLIC_KEY'' of
                     None \<Rightarrow> [] | Some pk \<Rightarrow> pk) of
             Inl p \<Rightarrow> (Inl p, w)
           | Inr d \<Rightarrow>
               (case Update_Secret (devboxSecret\<lparr>Data := d\<rparr>) w of
                  (Inl e, w2) \<Rightarrow> (Inl (wrap ''failed to update secret'' e), w2)
                | (Inr x, w2) \<Rightarrow> (Inr x, w2))))"

definition createSecret :: "Devbox \<Rightarrow> (string \<times> string) list \<Rightarrow> world \<Rightarrow> failure option \<times> world" where
  "createSecret devbox recLabels w =
     (case GenerateSSHKeyPair w of
        (Inl e, w1) \<Rightarrow> (Some (wrap ''failed to generate SSH key pair'' e), w1)
      | (Inr (publicKey, privateKey), w1) \<Rightarrow>
          (case rand_String 32 w1 of
             (token, w2) \<Rightarrow>
               (case SetControllerReference devbox
                       \<lparr>Name = Name devbox, Namespace = Namespace devbox, Labels = recLabels,
                        Annotations = [], Finalizers = [], DeletionTimestamp_IsZero = True,
                        OwnerReferences = [],
                        Data = Some [(''SEALOS_DEVBOX_JWT_SECRET'', token),
                                     (''SEALOS_DEVBOX_PUBLIC_KEY'', publicKey),
                                     (''SEALOS_DEVBOX_PRIVATE_KEY'', privateKey),
                                     (''SEALOS_DEVBOX_AUTHORIZED_KEYS'', publicKey)]\<rparr> of
                  Inl e \<Rightarrow> (Some (wrap ''failed to set controller reference'' e), w2)
                | Inr secret \<Rightarrow>
                    (case Create_Secret secret w2 of
                       (Inl e, w3) \<Rightarrow> (Some (wrap ''failed to create secret'' e), w3)
                     | (Inr x, w3) \<Rightarrow> (None, w3)))))"

definition syncSecret :: "Devbox \<Rightarrow> (string \<times> string) list \<Rightarrow> world \<Rightarrow> failure option \<times> world" where
  "syncSecret devbox recLabels w =
     (case Get_Secret (Namespace devbox) (Name devbox) w of
        (Inr devboxSecret, w1) \<Rightarrow>
          (case backfillJWTSecret devboxSecret w1 of
             (Inl f, w2) \<Rightarrow> (Some f, w2)
           | (Inr s2, w2) \<Rightarrow>
               (case backfillAuthorizedKeys s2 w2 of
                  (Inl f, w3) \<Rightarrow> (Some f, w3)
                | (Inr s3, w3) \<Rightarrow> (None, w3)))
      | (Inl e, w1) \<Rightarrow>
          if \<not> IsNotFound e then (Some (wrap ''failed to get secret'' e), w1)
          else createSecret devbox recLabels w1)"


subsection \<open>The pod the devbox wants\<close>

definition getRuntime :: "Devbox \<Rightarrow> world \<Rightarrow> (error + Runtime) \<times> world" where
  "getRuntime devbox w =
     Get_Runtime
       (if RuntimeRef_Namespace (RuntimeRef (Spec devbox)) = [] then Namespace devbox
        else RuntimeRef_Namespace (RuntimeRef (Spec devbox)))
       (RuntimeRef_Name (RuntimeRef (Spec devbox))) w"

definition generateImageName :: "DevboxReconciler \<Rightarrow> helper \<Rightarrow> Devbox \<Rightarrow> world \<Rightarrow> string \<times> world" where
  "generateImageName r h devbox w =
     (case time_Now w of
        (now, w1) \<Rightarrow>
          (case rand_String 5 w1 of
             (s, w2) \<Rightarrow>
               (CommitImageRegistry r @ ''/'' @ Namespace devbox @ ''/'' @ Name devbox @ '':'' @ s @ ''-'' @
                Format h now ''2006-01-02-150405'', w2)))"

definition generateNextCommitHistory ::
  "DevboxReconciler \<Rightarrow> helper \<Rightarrow> Devbox \<Rightarrow> world \<Rightarrow> CommitHistory \<times> world" where
  "generateNextCommitHistory r h devbox w =
     (case time_Now w of
        (now, w1) \<Rightarrow>
          (case generateImageName r h devbox w1 of
             (imageName, w2) \<Rightarrow>
               (case rand_String 5 w2 of
                  (s, w3) \<Rightarrow>
                    (\<lparr>Commit_Image = imageName, Commit_Time = now, Commit_Pod = Name devbox @ ''-'' @ s,
                      Commit_Status = CommitStatusPending,
                      Commit_PredicatedStatus = CommitStatusPending\<rparr>, w3))))"

text \<open>
  \<^verbatim>\<open>generateDevboxPod\<close> ignores the error of \<^verbatim>\<open>SetControllerReference\<close>: when it fails
  the pod has no owner reference.
\<close>

definition generateDevboxPod ::
  "DevboxReconciler \<Rightarrow> helper \<Rightarrow> Devbox \<Rightarrow> Runtime \<Rightarrow> CommitHistory \<Rightarrow> Pod" where
  "generateDevboxPod r h devbox runtime nextCommitHistory =
     (let expectPod =
        \<lparr>Name = Commit_Pod nextCommitHistory, Namespace = Namespace devbox,
         Labels = GeneratePodLabels h devbox runtime,
         Annotations = GeneratePodAnnotations h devbox runtime,
         Finalizers = [], DeletionTimestamp_IsZero = True, OwnerReferences = [],
         Pod_Spec =
           \<lparr>TerminationGracePeriodSeconds = Some 300,
            AutomountServiceAccountToken = Some False,
            RestartPolicy = ''Never'',
            Hostname = Name devbox,
            Containers =
              [\<lparr>Container_Name = Name devbox,
                Container_Image =
                  (if DebugMode r then Config_Image (Config runtime)
                   else GetLastSuccessCommitImageName h devbox runtime),
                Container_Env =
                  Config_Env (Config runtime) @ ExtraEnvs (Spec devbox) @
                  GenerateDevboxEnvVars h devbox nextCommitHistory,
                Container_Ports = Config_Ports (Config runtime),
                Container_VolumeMounts =
                  Config_VolumeMounts (Config runtime) @ GenerateSSHVolumeMounts h @
                  ExtraVolumeMounts (Spec devbox),
                Container_WorkingDir = GenerateWorkingDir h devbox runtime,
                Container_Command = GenerateCommand h devbox runtime,
                Container_Args = GenerateDevboxArgs h devbox runtime,
                Container_Resources =
                  GenerateResourceRequirements h devbox (RequestEphemeralStorage r)
                    (LimitEphemeralStorage r)\<rparr>],
            Volumes =
              Config_Volumes (Config runtime) @ [GenerateSSHVolume h devbox] @
              ExtraVolumes (Spec devbox),
            Pod_Tolerations = Tolerations (Spec devbox),
            Pod_Affinity = Affinity (Spec devbox)\<rparr>,
         Pod_Status = \<lparr>Pod_Phase = PodPhaseEmpty, ContainerStatuses = []\<rparr>\<rparr>
      in fst (AddFinalizer
               (case SetControllerReference devbox expectPod of Inl e \<Rightarrow> expectPod | Inr x \<Rightarrow> x)
               (FinalizerName h)))"

subsection \<open>Creating and deleting the pod\<close>

definition createPod ::
  "Devbox \<Rightarrow> Pod \<Rightarrow> CommitHistory \<Rightarrow> world \<Rightarrow> error option \<times> Devbox \<times> world" where
  "createPod devbox expectPod nextCommitHistory w =
     (case Create_Pod expectPod w of
        (Inl e, w1) \<Rightarrow> (Some e, devbox, w1)
      | (Inr x, w1) \<Rightarrow>
          (None,
           devbox\<lparr>Status := (Status devbox)\<lparr>Status_CommitHistory :=
             Status_CommitHistory (Status devbox) @
             [nextCommitHistory\<lparr>Commit_Status := CommitStatusPending,
                                Commit_PredicatedStatus := CommitStatusPending\<rparr>]\<rparr>\<rparr>,
           w1))"

text \<open>
  Both functions index \<^verbatim>\<open>pod.Status.ContainerStatuses[0]\<close> with no check of the
  length: on an empty list the index panics. They return the devbox and the pod as the
  caller sees them afterwards.
\<close>

definition deletePod ::
  "helper \<Rightarrow> Devbox \<Rightarrow> Pod \<Rightarrow> world \<Rightarrow> failure option \<times> Devbox \<times> Pod \<times> world" where
  "deletePod h devbox pod w =
     (case Update_Pod (fst (RemoveFinalizer pod (FinalizerName h))) w of
        (Inl e, w1) \<Rightarrow> (Some (Err e), devbox, fst (RemoveFinalizer pod (FinalizerName h)), w1)
      | (Inr pod1, w1) \<Rightarrow>
          (case Delete_Pod pod1 w1 of
             (Some e, w2) \<Rightarrow> (Some (Err e), devbox, pod1, w2)
           | (None, w2) \<Rightarrow>
               (case ContainerStatuses (Pod_Status pod1) of
                  [] \<Rightarrow> (Some (Panic ''index out of range [0] with length 0''), devbox, pod1, w2)
                | cs # rest \<Rightarrow>
                    (None,
                     UpdateCommitHistory h
                       (devbox\<lparr>Status := (Status devbox)\<lparr>LastTerminationState :=
                          ContainerStatus_State cs\<rparr>\<rparr>) pod1 True,
                     pod1, w2))))"

definition handlePodDeleted ::
  "helper \<Rightarrow> Devbox \<Rightarrow> Pod \<Rightarrow> world \<Rightarrow> failure option \<times> Devbox \<times> Pod \<times> world" where
  "handlePodDeleted h devbox pod w =
     (case Update_Pod (fst (RemoveFinalizer pod (FinalizerName h))) w of
        (Inl e, w1) \<Rightarrow> (Some (Err e), devbox, fst (RemoveFinalizer pod (FinalizerName h)), w1)
      | (Inr pod1, w1) \<Rightarrow>
          (case ContainerStatuses (Pod_Status pod1) of
             [] \<Rightarrow>
               (Some (Panic ''index out of range [0] with length 0''),
                UpdateCommitHistory h devbox pod1 True, pod1, w1)
           | cs # rest \<Rightarrow>
               (None,
                (UpdateCommitHistory h devbox pod1 True)
                  \<lparr>Status := (Status (UpdateCommitHistory h devbox pod1 True))\<lparr>LastTerminationState :=
                     ContainerStatus_State cs\<rparr>\<rparr>,
                pod1, w1)))"


subsection \<open>syncPod\<close>

text \<open>
  The deferred function of \<^verbatim>\<open>syncPod\<close>: it runs when the body returns or panics, and
  does not change what \<^verbatim>\<open>syncPod\<close> returns. \<open>podList\<close> is the list as the body left
  it: the body writes to its pod through a pointer into the list.
\<close>

definition syncPod_deferred_fn ::
  "helper \<Rightarrow> Pod list \<Rightarrow> Devbox \<Rightarrow> world \<Rightarrow> failure option \<times> Devbox \<times> world" where
  "syncPod_deferred_fn h podList devbox w =
     (case Get_Devbox (Namespace devbox) (Name devbox) w of
        (Inl e, w1) \<Rightarrow> (Some (Err e), devbox, w1)
      | (Inr latestDevbox, w1) \<Rightarrow>
          (let devbox1 = devbox\<lparr>Status := (Status devbox)\<lparr>Phase := GenerateDevboxPhase h devbox podList\<rparr>\<rparr> in
           case Status_Update (UpdateDevboxStatus h devbox1 latestDevbox) w1 of
             (Inl e, w2) \<Rightarrow> (Some (Err e), devbox1, w2)
           | (Inr x, w2) \<Rightarrow> (None, devbox1, w2)))"

definition syncPod_deferred :: "helper \<Rightarrow> Pod list \<Rightarrow> Devbox \<Rightarrow> world \<Rightarrow> Devbox \<times> world" where
  "syncPod_deferred h podList devbox w =
     (case RetryOnConflict DefaultRetry_Steps (syncPod_deferred_fn h podList) devbox w of
        (Some (Err e), devbox1, w1) \<Rightarrow>
          (devbox1, Eventf EventTypeWarning ''Sync pod failed'' (ErrorText e) w1)
      | (Some (Panic m), devbox1, w1) \<Rightarrow> (devbox1, w1)
      | (None, devbox1, w1) \<Rightarrow>
          (devbox1, Eventf EventTypeNormal ''Sync pod success'' (Text ''Sync pod success'') w1))"

definition with_pod ::
  "failure option \<times> Devbox \<times> Pod \<times> world \<Rightarrow> failure option \<times> Devbox \<times> Pod list \<times> world" where
  "with_pod x = (case x of (res, devbox, pod, w) \<Rightarrow> (res, devbox, [pod], w))"

definition setState :: "DevboxState \<Rightarrow> Devbox \<Rightarrow> Devbox" where
  "setState st devbox = devbox\<lparr>Spec := (Spec devbox)\<lparr>State := st\<rparr>\<rparr>"

definition setStatusState :: "ContainerState \<Rightarrow> Devbox \<Rightarrow> Devbox" where
  "setStatusState cs devbox = devbox\<lparr>Status := (Status devbox)\<lparr>Status_State := cs\<rparr>\<rparr>"

text \<open>State Running, no pod: \<^verbatim>\<open>case 0\<close> of the inner switch.\<close>

definition syncPod_create ::
  "helper \<Rightarrow> Devbox \<Rightarrow> Pod \<Rightarrow> CommitHistory \<Rightarrow> world \<Rightarrow> failure option \<times> Devbox \<times> Pod list \<times> world" where
  "syncPod_create h devbox expectPod nextCommitHistory w =
     (case createPod devbox expectPod nextCommitHistory w of
        (Some e, devbox1, w1) \<Rightarrow>
          if IsExceededQuotaError h e then
            (case Update_Devbox (setState DevboxStateStopped devbox1)
                    (Eventf EventTypeWarning ''Devbox is exceeded quota''
                       (Text ''Devbox is exceeded quota'') w1) of
               (Inl e', w2) \<Rightarrow> (None, setState DevboxStateStopped devbox1, [], w2)
             | (Inr devbox2, w2) \<Rightarrow> (None, devbox2, [], w2))
          else (Some (Err e), devbox1, [], w1)
      | (None, devbox1, w1) \<Rightarrow> (None, devbox1, [], w1))"

text \<open>State Running, one pod: \<^verbatim>\<open>case 1\<close> of the inner switch.\<close>

definition syncPod_running_pod ::
  "helper \<Rightarrow> Devbox \<Rightarrow> Pod \<Rightarrow> Pod \<Rightarrow> world \<Rightarrow> failure option \<times> Devbox \<times> Pod list \<times> world" where
  "syncPod_running_pod h devbox expectPod pod w =
     (case ContainerStatuses (Pod_Status pod) of
        [] \<Rightarrow> (Some (Err (Msg ''pod container size is 0'')), devbox, [pod], w)
      | cs # rest \<Rightarrow>
          (let devbox1 =
             UpdatePredicatedCommitStatus h (setStatusState (ContainerStatus_State cs) devbox) pod in
           if \<not> DeletionTimestamp_IsZero pod then with_pod (handlePodDeleted h devbox1 pod w)
           else if PodMatchExpectations h expectPod pod then
             (case Pod_Phase (Pod_Status pod) of
                PodPending \<Rightarrow> (None, UpdateCommitHistory h devbox1 pod False, [pod], w)
              | PodRunning \<Rightarrow> (None, UpdateCommitHistory h devbox1 pod False, [pod], w)
              | PodFailed \<Rightarrow> with_pod (deletePod h devbox1 pod w)
              | PodSucceeded \<Rightarrow> with_pod (deletePod h devbox1 pod w)
              | PodUnknown \<Rightarrow> (None, devbox1, [pod], w)
              | PodPhaseEmpty \<Rightarrow> (None, devbox1, [pod], w))
           else with_pod (deletePod h devbox1 pod w)))"

definition syncPod_Running ::
  "DevboxReconciler \<Rightarrow> helper \<Rightarrow> Devbox \<Rightarrow> Pod list \<Rightarrow> world \<Rightarrow>
   failure option \<times> Devbox \<times> Pod list \<times> world" where
  "syncPod_Running r h devbox items w =
     (case getRuntime devbox w of
        (Inl e, w1) \<Rightarrow> (Some (Err e), devbox, items, w1)
      | (Inr runtimecr, w1) \<Rightarrow>
          (case generateNextCommitHistory r h devbox w1 of
             (nextCommitHistory, w2) \<Rightarrow>
               (case items of
                  [] \<Rightarrow>
                    syncPod_create h devbox
                      (generateDevboxPod r h devbox runtimecr nextCommitHistory) nextCommitHistory w2
                | [pod] \<Rightarrow>
                    syncPod_running_pod h devbox
                      (generateDevboxPod r h devbox runtimecr nextCommitHistory) pod w2
                | pod # others \<Rightarrow> (None, devbox, items, w2))))"

definition syncPod_Stopped ::
  "helper \<Rightarrow> Devbox \<Rightarrow> Pod list \<Rightarrow> world \<Rightarrow> failure option \<times> Devbox \<times> Pod list \<times> world" where
  "syncPod_Stopped h devbox items w =
     (case items of
        [] \<Rightarrow> (None, devbox, items, w)
      | [pod] \<Rightarrow>
          (let devbox1 =
             UpdatePredicatedCommitStatus h (setStatusState ContainerStateEmpty devbox) pod in
           if \<not> DeletionTimestamp_IsZero pod then with_pod (handlePodDeleted h devbox1 pod w)
           else with_pod (deletePod h devbox1 pod w))
      | pod # others \<Rightarrow> (None, devbox, items, w))"

definition syncPod_switch ::
  "DevboxReconciler \<Rightarrow> helper \<Rightarrow> Devbox \<Rightarrow> Pod list \<Rightarrow> world \<Rightarrow>
   failure option \<times> Devbox \<times> Pod list \<times> world" where
  "syncPod_switch r h devbox items w =
     (case State (Spec devbox) of
        DevboxStateRunning \<Rightarrow> syncPod_Running r h devbox items w
      | DevboxStateStopped \<Rightarrow> syncPod_Stopped h devbox items w
      | DevboxStateOther x \<Rightarrow> (None, devbox, items, w))"

definition syncPod ::
  "DevboxReconciler \<Rightarrow> helper \<Rightarrow> Devbox \<Rightarrow> (string \<times> string) list \<Rightarrow> world \<Rightarrow>
   failure option \<times> Devbox \<times> world" where
  "syncPod r h devbox recLabels w =
     (case List_Pod (Namespace devbox) recLabels w of
        (Inl e, w1) \<Rightarrow> (Some (Err e), devbox, w1)
      | (Inr items, w1) \<Rightarrow>
          if length items > 1 then (Some (Err (Msg ''more than one pod found'')), devbox, w1)
          else
            (case syncPod_switch r h devbox items w1 of
               (res, devbox1, items1, w2) \<Rightarrow>
                 (case syncPod_deferred h items1 devbox1 w2 of
                    (devbox2, w3) \<Rightarrow> (res, devbox2, w3))))"


subsection \<open>Services\<close>

text \<open>
  When the store accepts a service of type NodePort, the platform gives every port
  that has none a node port from \<open>nodePorts\<close>, as long as there are some.
\<close>

fun assignNodePorts :: "int list \<Rightarrow> ServicePort list \<Rightarrow> ServicePort list \<times> int list" where
  "assignNodePorts pool [] = ([], pool)"
| "assignNodePorts [] (p # ps) = (p # ps, [])"
| "assignNodePorts (n # pool) (p # ps) =
     (if ServicePort_NodePort p = 0
      then (case assignNodePorts pool ps of (qs, pool') \<Rightarrow> (p\<lparr>ServicePort_NodePort := n\<rparr> # qs, pool'))
      else (case assignNodePorts (n # pool) ps of (qs, pool') \<Rightarrow> (p # qs, pool')))"

definition platformPorts :: "Service \<Rightarrow> world \<Rightarrow> Service \<times> int list" where
  "platformPorts x w =
     (if Service_Type (Service_Spec x) = ServiceTypeNodePort then
        (case assignNodePorts (nodePorts w) (Service_Ports (Service_Spec x)) of
           (ps, pool) \<Rightarrow> (x\<lparr>Service_Spec := (Service_Spec x)\<lparr>Service_Ports := ps\<rparr>\<rparr>, pool))
      else (x, nodePorts w))"

definition Get_Service :: "string \<Rightarrow> string \<Rightarrow> world \<Rightarrow> (error + Service) \<times> world" where
  "Get_Service = client_Get KService services"

definition Create_Service :: "Service \<Rightarrow> world \<Rightarrow> (error + Service) \<times> world" where
  "Create_Service x w =
     (case client_Create KService services services_update (fst (platformPorts x w)) w of
        (Inl e, w1) \<Rightarrow> (Inl e, w1)
      | (Inr y, w1) \<Rightarrow> (Inr y, w1\<lparr>nodePorts := snd (platformPorts x w)\<rparr>))"

definition Update_Service :: "Service \<Rightarrow> world \<Rightarrow> (error + Service) \<times> world" where
  "Update_Service x w =
     (case client_Update KService services services_update plain_merge (fst (platformPorts x w)) w of
        (Inl e, w1) \<Rightarrow> (Inl e, w1)
      | (Inr y, w1) \<Rightarrow> (Inr y, w1\<lparr>nodePorts := snd (platformPorts x w)\<rparr>))"

text \<open>\<^verbatim>\<open>CreateOrUpdate\<close> at the type of services, with the two calls above.\<close>

definition CreateOrUpdate_Service ::
  "Service \<Rightarrow> (Service \<Rightarrow> failure + Service) \<Rightarrow> world \<Rightarrow> (failure + Service) \<times> world" where
  "CreateOrUpdate_Service x f w =
     (case Get_Service (Namespace x) (Name x) w of
        (Inl e, w1) \<Rightarrow>
          if \<not> IsNotFound e then (Inl (Err e), w1)
          else
            (case mutate f x of
               Inl e' \<Rightarrow> (Inl e', w1)
             | Inr y \<Rightarrow>
                 (case Create_Service y w1 of
                    (Inl e', w2) \<Rightarrow> (Inl (Err e'), w2)
                  | (Inr z, w2) \<Rightarrow> (Inr z, w2)))
      | (Inr existing, w1) \<Rightarrow>
          (case mutate f existing of
             Inl e' \<Rightarrow> (Inl e', w1)
           | Inr y \<Rightarrow>
               if existing = y then (Inr y, w1)
               else
                 (case Update_Service y w1 of
                    (Inl e', w2) \<Rightarrow> (Inl (Err e'), w2)
                  | (Inr z, w2) \<Rightarrow> (Inr z, w2))))"

definition lift_error :: "error + 'a \<Rightarrow> failure + 'a" where
  "lift_error x = (case x of Inl e \<Rightarrow> Inl (Err e) | Inr y \<Rightarrow> Inr y)"

definition zeroServiceSpec :: ServiceSpec where
  "zeroServiceSpec = \<lparr>Selector = [], Service_Type = ServiceTypeOther [], Service_Ports = []\<rparr>"

text \<open>
  The mutation of \<^verbatim>\<open>syncNodePortNetwork\<close> and \<^verbatim>\<open>syncPodSvc\<close>: selector and type are
  overwritten; the port list is set when the service has none, otherwise only name,
  port, target port and protocol of its first port are overwritten.
\<close>

definition setFirstPort :: "ServicePort \<Rightarrow> ServicePort \<Rightarrow> ServicePort" where
  "setFirstPort e p =
     p\<lparr>ServicePort_Name := ServicePort_Name e, ServicePort_Port := ServicePort_Port e,
       ServicePort_TargetPort := ServicePort_TargetPort e,
       ServicePort_Protocol := ServicePort_Protocol e\<rparr>"

definition mutateService ::
  "Devbox \<Rightarrow> ServiceSpec \<Rightarrow> Service \<Rightarrow> failure + Service" where
  "mutateService devbox expectServiceSpec service =
     (case Service_Ports (Service_Spec service) of
        [] \<Rightarrow>
          lift_error (SetControllerReference devbox
            (service\<lparr>Service_Spec := \<lparr>Selector = Selector expectServiceSpec,
               Service_Type = Service_Type expectServiceSpec,
               Service_Ports = Service_Ports expectServiceSpec\<rparr>\<rparr>))
      | p # ps \<Rightarrow>
          (case Service_Ports expectServiceSpec of
             [] \<Rightarrow> Inl (Panic ''index out of range [0] with length 0'')
           | e # es \<Rightarrow>
               lift_error (SetControllerReference devbox
                 (service\<lparr>Service_Spec := \<lparr>Selector = Selector expectServiceSpec,
                    Service_Type = Service_Type expectServiceSpec,
                    Service_Ports = setFirstPort e p # ps\<rparr>\<rparr>))))"

definition getUpdatedService ::
  "string \<Rightarrow> string \<Rightarrow> Service option \<Rightarrow> world \<Rightarrow> failure option \<times> Service option \<times> world" where
  "getUpdatedService ns n updatedService w =
     (case Get_Service ns n w of
        (Inl e, w1) \<Rightarrow> (Some (Err e), updatedService, w1)
      | (Inr x, w1) \<Rightarrow> (None, Some x, w1))"

definition setNodePort :: "int \<Rightarrow> Devbox \<Rightarrow> Devbox" where
  "setNodePort nodePort devbox =
     devbox\<lparr>Status := (Status devbox)\<lparr>Network :=
       (Network (Status devbox))\<lparr>Network_Type := NetworkTypeNodePort, Network_NodePort := nodePort\<rparr>\<rparr>\<rparr>"

definition extractNodePort :: "ServicePort list \<Rightarrow> int" where
  "extractNodePort ports =
     (case find (\<lambda>port. ServicePort_NodePort port \<noteq> 0) ports of
        None \<Rightarrow> 0
      | Some port \<Rightarrow> ServicePort_NodePort port)"

definition syncNodePortNetwork ::
  "Devbox \<Rightarrow> (string \<times> string) list \<Rightarrow> ServicePort list \<Rightarrow> world \<Rightarrow> failure option \<times> Devbox \<times> world" where
  "syncNodePortNetwork devbox recLabels servicePorts w =
     (case CreateOrUpdate_Service
             \<lparr>Name = Name devbox @ ''-svc'', Namespace = Namespace devbox, Labels = recLabels,
              Annotations = [], Finalizers = [], DeletionTimestamp_IsZero = True,
              OwnerReferences = [], Service_Spec = zeroServiceSpec\<rparr>
             (mutateService devbox
                \<lparr>Selector = recLabels, Service_Type = ServiceTypeNodePort, Service_Ports = servicePorts\<rparr>) w of
        (Inl f, w1) \<Rightarrow> (Some f, devbox, w1)
      | (Inr service, w1) \<Rightarrow>
          (case OnError DefaultRetry_Steps IsNotFound
                  (getUpdatedService (Namespace service) (Name service)) None None w1 of
             (Some (Err e), u, w2) \<Rightarrow> (Some (wrap ''failed to get updated service'' e), devbox, w2)
           | (Some (Panic m), u, w2) \<Rightarrow> (Some (Panic m), devbox, w2)
           | (None, None, w2) \<Rightarrow> (Some (Err (Msg (''NodePort not found for service '' @ Name service))), devbox, w2)
           | (None, Some updatedService, w2) \<Rightarrow>
               if extractNodePort (Service_Ports (Service_Spec updatedService)) = 0 then
                 (Some (Err (Msg (''NodePort not found for service '' @ Name service))), devbox, w2)
               else
                 (case Status_Update
                         (setNodePort (extractNodePort (Service_Ports (Service_Spec updatedService))) devbox) w2 of
                    (Inl e, w3) \<Rightarrow>
                      (Some (Err e),
                       setNodePort (extractNodePort (Service_Ports (Service_Spec updatedService))) devbox, w3)
                  | (Inr devbox1, w3) \<Rightarrow> (None, devbox1, w3))))"

definition servicePortOf :: "ContainerPort \<Rightarrow> ServicePort" where
  "servicePortOf port =
     \<lparr>ServicePort_Name = Port_Name port, ServicePort_Port = Port_ContainerPort port,
      ServicePort_TargetPort = Port_ContainerPort port, ServicePort_Protocol = Port_Protocol port,
      ServicePort_NodePort = 0\<rparr>"

definition getServicePort :: "Devbox \<Rightarrow> world \<Rightarrow> (error + ServicePort list) \<times> world" where
  "getServicePort devbox w =
     (case getRuntime devbox w of
        (Inl e, w1) \<Rightarrow> (Inl e, w1)
      | (Inr runtimecr, w1) \<Rightarrow>
          (if map servicePortOf (Config_Ports (Config runtimecr)) = [] then
             (Inr [\<lparr>ServicePort_Name = ''devbox-ssh-port'', ServicePort_Port = 22,
                    ServicePort_TargetPort = 22, ServicePort_Protocol = ''TCP'',
                    ServicePort_NodePort = 0\<rparr>], w1)
           else (Inr (map servicePortOf (Config_Ports (Config runtimecr))), w1)))"


subsection \<open>The WebSocket proxy\<close>

definition Get_Deployment :: "string \<Rightarrow> string \<Rightarrow> world \<Rightarrow> (error + Deployment) \<times> world" where
  "Get_Deployment = client_Get KDeployment deployments"

definition Delete_Deployment :: "Deployment \<Rightarrow> world \<Rightarrow> error option \<times> world" where
  "Delete_Deployment x = client_Delete KDeployment deployments deployments_update (Namespace x) (Name x)"

definition CreateOrUpdate_Deployment ::
  "Deployment \<Rightarrow> (Deployment \<Rightarrow> failure + Deployment) \<Rightarrow> world \<Rightarrow> (failure + Deployment) \<times> world" where
  "CreateOrUpdate_Deployment = CreateOrUpdate KDeployment deployments deployments_update plain_merge"

definition CreateOrUpdate_Ingress ::
  "Ingress \<Rightarrow> (Ingress \<Rightarrow> failure + Ingress) \<Rightarrow> world \<Rightarrow> (failure + Ingress) \<times> world" where
  "CreateOrUpdate_Ingress = CreateOrUpdate KIngress ingresses ingresses_update plain_merge"

definition generateProxyIngressHost :: "DevboxReconciler \<Rightarrow> world \<Rightarrow> string \<times> world" where
  "generateProxyIngressHost r w =
     (case rand_String 12 w of (s, w1) \<Rightarrow> (s @ ''.'' @ WebsocketProxyDomain r, w1))"

definition syncProxyIngress :: "DevboxReconciler \<Rightarrow> Devbox \<Rightarrow> world \<Rightarrow> (failure + string) \<times> world" where
  "syncProxyIngress r devbox w =
     (case generateProxyIngressHost r w of
        (host, w1) \<Rightarrow>
          (case CreateOrUpdate_Ingress
                  \<lparr>Name = Name devbox @ ''-proxy-ingress'', Namespace = Namespace devbox, Labels = [],
                   Annotations = [], Finalizers = [], DeletionTimestamp_IsZero = True,
                   OwnerReferences = [],
                   Ingress_Spec =
                     \<lparr>IngressClassName = IngressClass r,
                      Rules =
                        [\<lparr>Host = host,
                          Paths =
                            [\<lparr>Path = ''/'', PathType = ''Prefix'',
                              Backend_Service_Name = Name devbox @ ''-proxy-svc'',
                              Backend_Service_Port = 80\<rparr>]\<rparr>]\<rparr>\<rparr>
                  (\<lambda>wsIngress. lift_error (SetControllerReference devbox wsIngress)) w1 of
             (Inl f, w2) \<Rightarrow> (Inl f, w2)
           | (Inr x, w2) \<Rightarrow> (Inr host, w2)))"

definition mutateProxySvc :: "Devbox \<Rightarrow> ServiceSpec \<Rightarrow> Service \<Rightarrow> failure + Service" where
  "mutateProxySvc devbox expectServiceSpec proxySvc =
     (case Service_Ports (Service_Spec proxySvc) of
        [] \<Rightarrow> Inl (Panic ''index out of range [0] with length 0'')
      | p # ps \<Rightarrow>
          (case Service_Ports expectServiceSpec of
             [] \<Rightarrow> Inl (Panic ''index out of range [0] with length 0'')
           | e # es \<Rightarrow>
               lift_error (SetControllerReference devbox
                 (proxySvc\<lparr>Service_Spec := \<lparr>Selector = Selector expectServiceSpec,
                    Service_Type = Service_Type expectServiceSpec,
                    Service_Ports = setFirstPort e p # ps\<rparr>\<rparr>))))"

definition proxyServiceSpec :: "helper \<Rightarrow> Devbox \<Rightarrow> Runtime \<Rightarrow> ServiceSpec" where
  "proxyServiceSpec h devbox runtimecr =
     \<lparr>Selector = GenerateProxyPodLabels h devbox runtimecr, Service_Type = ServiceTypeClusterIP,
      Service_Ports =
        [\<lparr>ServicePort_Name = ''devbox-ssh-port'', ServicePort_Port = 80, ServicePort_TargetPort = 80,
          ServicePort_Protocol = ''TCP'', ServicePort_NodePort = 0\<rparr>]\<rparr>"

definition syncProxySvc :: "helper \<Rightarrow> Devbox \<Rightarrow> world \<Rightarrow> failure option \<times> world" where
  "syncProxySvc h devbox w =
     (case getRuntime devbox w of
        (Inl e, w1) \<Rightarrow> (Some (Err e), w1)
      | (Inr runtimecr, w1) \<Rightarrow>
          (case CreateOrUpdate_Service
                  \<lparr>Name = Name devbox @ ''-proxy-svc'', Namespace = Namespace devbox,
                   Labels = GenerateProxyPodLabels h devbox runtimecr,
                   Annotations = [], Finalizers = [], DeletionTimestamp_IsZero = True,
                   OwnerReferences = [], Service_Spec = proxyServiceSpec h devbox runtimecr\<rparr>
                  (mutateProxySvc devbox (proxyServiceSpec h devbox runtimecr)) w1 of
             (Inl f, w2) \<Rightarrow> (Some f, w2)
           | (Inr x, w2) \<Rightarrow> (None, w2)))"

definition generateProxyPodDeploymentName :: "Devbox \<Rightarrow> string" where
  "generateProxyPodDeploymentName devbox = Name devbox @ ''-proxy-deployment''"

definition generateProxyPodName :: "Devbox \<Rightarrow> world \<Rightarrow> string \<times> world" where
  "generateProxyPodName devbox w =
     (case rand_String 5 w of (s, w1) \<Rightarrow> (Name devbox @ ''-proxy-pod'' @ ''-'' @ s, w1))"

text \<open>
  Times and durations are nanoseconds, as \<^verbatim>\<open>int64\<close> in Go. \<^verbatim>\<open>jwt.NewNumericDate\<close>
  truncates a time to the second.
\<close>

definition Second :: int where
  "Second = 1000000000"

definition Hour :: int where
  "Hour = 3600 * Second"

definition NewNumericDate :: "int \<Rightarrow> int" where
  "NewNumericDate t = t - t mod Second"

definition generateProxyPodJWT :: "DevboxReconciler \<Rightarrow> helper \<Rightarrow> Devbox \<Rightarrow> world \<Rightarrow> (error + string) \<times> world" where
  "generateProxyPodJWT r h devbox w =
     (case time_Now w of
        (t1, w1) \<Rightarrow>
          (case time_Now w1 of
             (t2, w2) \<Rightarrow>
               (case SignedString h SigningMethodHS256 (ShutdownServerKey r)
                       \<lparr>DevboxName = Name devbox, NameSpace = Namespace devbox,
                        IssuedAt = NewNumericDate t1,
                        ExpiresAt = NewNumericDate (t2 + Hour * 7 * 24),
                        Issuer = ''devbox-controller''\<rparr> of
                  Inl e \<Rightarrow> (Inl (Wrapped ''failed to sign token'' e), w2)
                | Inr signedToken \<Rightarrow> (Inr signedToken, w2))))"

definition sshPortOf :: "ServicePort list \<Rightarrow> string" where
  "sshPortOf servicePorts =
     (case find (\<lambda>port. ServicePort_Name port = ''devbox-ssh-port'') servicePorts of
        None \<Rightarrow> ''22''
      | Some port \<Rightarrow> Itoa (ServicePort_TargetPort port))"

definition generateProxyPodEnv ::
  "DevboxReconciler \<Rightarrow> helper \<Rightarrow> Devbox \<Rightarrow> ServicePort list \<Rightarrow> world \<Rightarrow> (error + EnvVar list) \<times> world" where
  "generateProxyPodEnv r h devbox servicePorts w =
     (let autoShutdownEnabled =
        (AutoShutdown_Enable (AutoShutdownSpec (Spec devbox)) \<and> EnableAutoShutdown r) in
      case generateProxyPodJWT r h devbox w of
        (Inl e, w1) \<Rightarrow> (Inl e, w1)
      | (Inr token, w1) \<Rightarrow>
          (Inr
            ([\<lparr>Env_Name = ''ENABLE_AUTO_SHUTDOWN'', Env_Value = FormatBool autoShutdownEnabled\<rparr>] @
             (if autoShutdownEnabled
              then [\<lparr>Env_Name = ''AUTO_SHUTDOWN_INTERVAL'',
                     Env_Value = AutoShutdown_Time (AutoShutdownSpec (Spec devbox))\<rparr>]
              else []) @
             [\<lparr>Env_Name = ''JWT_TOKEN'', Env_Value = token\<rparr>,
              \<lparr>Env_Name = ''TARGET'', Env_Value = Name devbox @ ''-pod-svc:'' @ sshPortOf servicePorts\<rparr>,
              \<lparr>Env_Name = ''LISTEN'', Env_Value = ''0.0.0.0:80''\<rparr>,
              \<lparr>Env_Name = ''AUTO_SHUTDOWN_SERVICE_URL'', Env_Value = ShutdownServerAddr r\<rparr>]), w1))"

definition proxyContainer :: "DevboxReconciler \<Rightarrow> helper \<Rightarrow> EnvVar list \<Rightarrow> Container" where
  "proxyContainer r h podEnv =
     \<lparr>Container_Name = ''ws-proxy'', Container_Image = WebSocketImage r, Container_Env = podEnv,
      Container_Ports = [], Container_VolumeMounts = [], Container_WorkingDir = [],
      Container_Command = [], Container_Args = [],
      Container_Resources = GenerateProxyPodResourceRequirements h\<rparr>"

definition proxyPodSpec :: "DevboxReconciler \<Rightarrow> helper \<Rightarrow> EnvVar list \<Rightarrow> PodSpec" where
  "proxyPodSpec r h podEnv =
     \<lparr>TerminationGracePeriodSeconds = None, AutomountServiceAccountToken = None,
      RestartPolicy = [], Hostname = [], Containers = [proxyContainer r h podEnv],
      Volumes = [], Pod_Tolerations = [], Pod_Affinity = None\<rparr>"

definition generateProxyPodDeployment ::
  "DevboxReconciler \<Rightarrow> helper \<Rightarrow> Devbox \<Rightarrow> ServicePort list \<Rightarrow> world \<Rightarrow> (error + Deployment) \<times> world" where
  "generateProxyPodDeployment r h devbox servicePorts w =
     (case getRuntime devbox w of
        (Inl e, w1) \<Rightarrow> (Inl e, w1)
      | (Inr runtimecr, w1) \<Rightarrow>
          (case generateProxyPodEnv r h devbox servicePorts w1 of
             (Inl e, w2) \<Rightarrow> (Inl e, w2)
           | (Inr podEnv, w2) \<Rightarrow>
               (case generateProxyPodName devbox w2 of
                  (podName, w3) \<Rightarrow>
                    (Inr
                      \<lparr>Name = generateProxyPodDeploymentName devbox, Namespace = Namespace devbox,
                       Labels = GenerateProxyPodLabels h devbox runtimecr,
                       Annotations = GeneratePodAnnotations h devbox runtimecr,
                       Finalizers = [], DeletionTimestamp_IsZero = True, OwnerReferences = [],
                       Deployment_Spec =
                         \<lparr>Replicas = Some 1,
                          MatchLabels = GenerateProxyPodLabels h devbox runtimecr,
                          Template =
                            \<lparr>Template_Meta =
                               \<lparr>Name = podName, Namespace = Namespace devbox,
                                Labels = GenerateProxyPodLabels h devbox runtimecr,
                                Annotations = GeneratePodAnnotations h devbox runtimecr,
                                Finalizers = [], DeletionTimestamp_IsZero = True,
                                OwnerReferences = []\<rparr>,
                             Template_Spec = proxyPodSpec r h podEnv\<rparr>\<rparr>\<rparr>, w3))))"

definition syncProxyPod ::
  "DevboxReconciler \<Rightarrow> helper \<Rightarrow> Devbox \<Rightarrow> ServicePort list \<Rightarrow> world \<Rightarrow> failure option \<times> world" where
  "syncProxyPod r h devbox servicePorts w =
     (case Get_Deployment (Namespace devbox) (generateProxyPodDeploymentName devbox) w of
        (Inl err, w1) \<Rightarrow>
          if State (Spec devbox) = DevboxStateRunning then
            (if IsNotFound err then
               (case generateProxyPodDeployment r h devbox servicePorts w1 of
                  (Inl e, w2) \<Rightarrow> (Some (Err e), w2)
                | (Inr wsDeployment, w2) \<Rightarrow>
                    (case CreateOrUpdate_Deployment wsDeployment
                            (\<lambda>d. lift_error (SetControllerReference devbox d)) w2 of
                       (Inl f, w3) \<Rightarrow> (Some f, w3)
                     | (Inr x, w3) \<Rightarrow> (None, w3)))
             else (Some (Err err), w1))
          else (if \<not> IsNotFound err then (Some (Err err), w1) else (None, w1))
      | (Inr wsDeployment, w1) \<Rightarrow>
          if State (Spec devbox) = DevboxStateRunning then (None, w1)
          else
            (case Delete_Deployment wsDeployment w1 of
               (Some e, w2) \<Rightarrow> (Some (Err e), w2)
             | (None, w2) \<Rightarrow> (None, w2)))"

definition syncPodSvc ::
  "helper \<Rightarrow> Devbox \<Rightarrow> (string \<times> string) list \<Rightarrow> ServicePort list \<Rightarrow> world \<Rightarrow> failure option \<times> world" where
  "syncPodSvc h devbox recLabels servicePorts w =
     (case getRuntime devbox w of
        (Inl e, w1) \<Rightarrow> (Some (Err e), w1)
      | (Inr runtimecr, w1) \<Rightarrow>
          (case CreateOrUpdate_Service
                  \<lparr>Name = Name devbox @ ''-pod-svc'', Namespace = Namespace devbox,
                   Labels = GenerateProxyPodLabels h devbox runtimecr,
                   Annotations = [], Finalizers = [], DeletionTimestamp_IsZero = True,
                   OwnerReferences = [], Service_Spec = zeroServiceSpec\<rparr>
                  (mutateService devbox
                     \<lparr>Selector = recLabels, Service_Type = ServiceTypeClusterIP,
                      Service_Ports = servicePorts\<rparr>) w1 of
             (Inl f, w2) \<Rightarrow> (Some f, w2)
           | (Inr x, w2) \<Rightarrow> (None, w2)))"

definition setNetworkType :: "NetworkType \<Rightarrow> Devbox \<Rightarrow> Devbox" where
  "setNetworkType t devbox =
     devbox\<lparr>Status := (Status devbox)\<lparr>Network := (Network (Status devbox))\<lparr>Network_Type := t\<rparr>\<rparr>\<rparr>"

definition setWebSocket :: "string \<Rightarrow> Devbox \<Rightarrow> Devbox" where
  "setWebSocket hostName devbox =
     devbox\<lparr>Status := (Status devbox)\<lparr>Network := (Network (Status devbox))\<lparr>Network_WebSocket := hostName\<rparr>\<rparr>\<rparr>"

definition syncWebSocketNetwork ::
  "DevboxReconciler \<Rightarrow> helper \<Rightarrow> Devbox \<Rightarrow> (string \<times> string) list \<Rightarrow> ServicePort list \<Rightarrow> world \<Rightarrow>
   failure option \<times> Devbox \<times> world" where
  "syncWebSocketNetwork r h devbox recLabels servicePorts w =
     (case Status_Update (setNetworkType NetworkTypeWebSocket devbox) w of
        (Inl e, w1) \<Rightarrow> (Some (Err e), setNetworkType NetworkTypeWebSocket devbox, w1)
      | (Inr devbox1, w1) \<Rightarrow>
          (case syncPodSvc h devbox1 recLabels servicePorts w1 of
             (Some f, w2) \<Rightarrow> (Some f, devbox1, w2)
           | (None, w2) \<Rightarrow>
               (case syncProxyPod r h devbox1 servicePorts w2 of
                  (Some f, w3) \<Rightarrow> (Some f, devbox1, w3)
                | (None, w3) \<Rightarrow>
                    (case syncProxySvc h devbox1 w3 of
                       (Some f, w4) \<Rightarrow> (Some f, devbox1, w4)
                     | (None, w4) \<Rightarrow>
                         (case syncProxyIngress r devbox1 w4 of
                            (Inl f, w5) \<Rightarrow> (Some f, devbox1, w5)
                          | (Inr hostName, w5) \<Rightarrow>
                              (case Status_Update (setWebSocket hostName devbox1) w5 of
                                 (Inl e, w6) \<Rightarrow> (Some (Err e), setWebSocket hostName devbox1, w6)
                               | (Inr devbox2, w6) \<Rightarrow> (None, devbox2, w6)))))))"

definition syncNetwork ::
  "DevboxReconciler \<Rightarrow> helper \<Rightarrow> Devbox \<Rightarrow> (string \<times> string) list \<Rightarrow> world \<Rightarrow>
   failure option \<times> Devbox \<times> world" where
  "syncNetwork r h devbox recLabels w =
     (case getServicePort devbox w of
        (Inl e, w1) \<Rightarrow> (Some (Err e), devbox, w1)
      | (Inr servicePorts, w1) \<Rightarrow>
          (case NetworkSpec_Type (NetworkSpec (Spec devbox)) of
             NetworkTypeNodePort \<Rightarrow> syncNodePortNetwork devbox recLabels servicePorts w1
           | NetworkTypeWebSocket \<Rightarrow> syncWebSocketNetwork r h devbox recLabels servicePorts w1
           | NetworkTypeOther x \<Rightarrow> (None, devbox, w1)))"

subsection \<open>Cleanup\<close>

fun removePodFinalizers :: "helper \<Rightarrow> Pod list \<Rightarrow> world \<Rightarrow> error option \<times> world" where
  "removePodFinalizers h [] w = (None, w)"
| "removePodFinalizers h (pod # items) w =
     (if snd (RemoveFinalizer pod (FinalizerName h)) then
        (case Update_Pod (fst (RemoveFinalizer pod (FinalizerName h))) w of
           (Inl e, w1) \<Rightarrow> (Some e, w1)
         | (Inr x, w1) \<Rightarrow> removePodFinalizers h items w1)
      else removePodFinalizers h items w)"

definition deleteResourcesByLabels ::
  "Kind \<Rightarrow> (world \<Rightarrow> 'a ObjectMeta_scheme list) \<Rightarrow>
   (('a ObjectMeta_scheme list \<Rightarrow> 'a ObjectMeta_scheme list) \<Rightarrow> world \<Rightarrow> world) \<Rightarrow>
   string \<Rightarrow> (string \<times> string) list \<Rightarrow> world \<Rightarrow> error option \<times> world" where
  "deleteResourcesByLabels k sel upd namespace labels w =
     (case client_DeleteAllOf k sel upd namespace labels w of
        (Some err, w1) \<Rightarrow> (IgnoreNotFound err, w1)
      | (None, w1) \<Rightarrow> (None, w1))"

definition removeAll' :: "helper \<Rightarrow> Devbox \<Rightarrow> (string \<times> string) list \<Rightarrow> world \<Rightarrow> error option \<times> world" where
  "removeAll' h devbox recLabels w =
     (case List_Pod (Namespace devbox) recLabels w of
        (Inl e, w1) \<Rightarrow> (Some e, w1)
      | (Inr items, w1) \<Rightarrow>
          (case removePodFinalizers h items w1 of
             (Some e, w2) \<Rightarrow> (Some e, w2)
           | (None, w2) \<Rightarrow>
               (case deleteResourcesByLabels KPod pods pods_update (Namespace devbox) recLabels w2 of
                  (Some e, w3) \<Rightarrow> (Some e, w3)
                | (None, w3) \<Rightarrow>
                    (case deleteResourcesByLabels KService services services_update
                            (Namespace devbox) recLabels w3 of
                       (Some e, w4) \<Rightarrow> (Some e, w4)
                     | (None, w4) \<Rightarrow>
                         deleteResourcesByLabels KSecret secrets secrets_update
                           (Namespace devbox) recLabels w4))))"


subsection \<open>Reconcile\<close>

definition addFinalizer_fn ::
  "helper \<Rightarrow> string \<Rightarrow> string \<Rightarrow> unit \<Rightarrow> world \<Rightarrow> failure option \<times> unit \<times> world" where
  "addFinalizer_fn h ns n u w =
     (case Get_Devbox ns n w of
        (Inl e, w1) \<Rightarrow> (map_option Err (IgnoreNotFound e), u, w1)
      | (Inr latestDevbox, w1) \<Rightarrow>
          if snd (AddFinalizer latestDevbox (FinalizerName h)) then
            (case Update_Devbox (fst (AddFinalizer latestDevbox (FinalizerName h))) w1 of
               (Inl e, w2) \<Rightarrow> (Some (Err e), u, w2)
             | (Inr x, w2) \<Rightarrow> (None, u, w2))
          else (None, u, w1))"

definition syncPod_fn ::
  "DevboxReconciler \<Rightarrow> helper \<Rightarrow> string \<Rightarrow> string \<Rightarrow> (string \<times> string) list \<Rightarrow> Devbox \<Rightarrow> world \<Rightarrow>
   failure option \<times> Devbox \<times> world" where
  "syncPod_fn r h ns n recLabels devbox w =
     (case Get_Devbox ns n w of
        (Inl e, w1) \<Rightarrow> (Some (Err e), devbox, w1)
      | (Inr devbox1, w1) \<Rightarrow> syncPod r h devbox1 recLabels w1)"

text \<open>The deletion branch: cleanup, then the devbox's own finalizer.\<close>

definition Reconcile_delete ::
  "helper \<Rightarrow> Devbox \<Rightarrow> (string \<times> string) list \<Rightarrow> world \<Rightarrow> failure option \<times> world" where
  "Reconcile_delete h devbox recLabels w =
     (case removeAll' h devbox recLabels w of
        (Some e, w1) \<Rightarrow> (Some (Err e), w1)
      | (None, w1) \<Rightarrow>
          if snd (RemoveFinalizer devbox (FinalizerName h)) then
            (case Update_Devbox (fst (RemoveFinalizer devbox (FinalizerName h))) w1 of
               (Inl e, w2) \<Rightarrow> (Some (Err e), w2)
             | (Inr x, w2) \<Rightarrow> (None, w2))
          else (None, w1))"

text \<open>The three steps after the finalizer and the mirrored network type.\<close>

definition Reconcile_pod ::
  "DevboxReconciler \<Rightarrow> helper \<Rightarrow> string \<Rightarrow> string \<Rightarrow> Devbox \<Rightarrow> (string \<times> string) list \<Rightarrow> world \<Rightarrow>
   failure option \<times> world" where
  "Reconcile_pod r h ns n devbox recLabels w =
     (case RetryOnConflict DefaultRetry_Steps (syncPod_fn r h ns n recLabels) devbox w of
        (Some (Panic m), devbox1, w1) \<Rightarrow> (Some (Panic m), w1)
      | (Some (Err e), devbox1, w1) \<Rightarrow>
          (Some (Err e), Eventf EventTypeWarning ''Sync pod failed'' (ErrorText e) w1)
      | (None, devbox1, w1) \<Rightarrow>
          (None, Eventf EventTypeNormal ''Sync pod success'' (Text ''Sync pod success'') w1))"

definition Reconcile_network ::
  "DevboxReconciler \<Rightarrow> helper \<Rightarrow> string \<Rightarrow> string \<Rightarrow> Devbox \<Rightarrow> (string \<times> string) list \<Rightarrow> world \<Rightarrow>
   failure option \<times> world" where
  "Reconcile_network r h ns n devbox recLabels w =
     (case syncNetwork r h devbox recLabels w of
        (Some (Panic m), devbox1, w1) \<Rightarrow> (Some (Panic m), w1)
      | (Some (Err e), devbox1, w1) \<Rightarrow>
          (Some (Err e), Eventf EventTypeWarning ''Sync network failed'' (ErrorText e) w1)
      | (None, devbox1, w1) \<Rightarrow> Reconcile_pod r h ns n devbox1 recLabels w1)"

definition Reconcile_secret ::
  "DevboxReconciler \<Rightarrow> helper \<Rightarrow> string \<Rightarrow> string \<Rightarrow> Devbox \<Rightarrow> (string \<times> string) list \<Rightarrow> world \<Rightarrow>
   failure option \<times> world" where
  "Reconcile_secret r h ns n devbox recLabels w =
     (case syncSecret devbox recLabels w of
        (Some (Panic m), w1) \<Rightarrow> (Some (Panic m), w1)
      | (Some (Err e), w1) \<Rightarrow>
          (Some (Err e), Eventf EventTypeWarning ''Sync secret failed'' (ErrorText e) w1)
      | (None, w1) \<Rightarrow>
          Reconcile_network r h ns n devbox recLabels
            (Eventf EventTypeNormal ''Sync secret success'' (Text ''Sync secret success'') w1))"

text \<open>The error of the status update that mirrors the network type is dropped.\<close>

definition Reconcile_mirror ::
  "DevboxReconciler \<Rightarrow> helper \<Rightarrow> string \<Rightarrow> string \<Rightarrow> Devbox \<Rightarrow> (string \<times> string) list \<Rightarrow> world \<Rightarrow>
   failure option \<times> world" where
  "Reconcile_mirror r h ns n devbox recLabels w =
     (case Status_Update (setNetworkType (NetworkSpec_Type (NetworkSpec (Spec devbox))) devbox) w of
        (Inl e, w1) \<Rightarrow>
          Reconcile_secret r h ns n
            (setNetworkType (NetworkSpec_Type (NetworkSpec (Spec devbox))) devbox) recLabels w1
      | (Inr devbox1, w1) \<Rightarrow> Reconcile_secret r h ns n devbox1 recLabels w1)"

definition Reconcile_forward ::
  "DevboxReconciler \<Rightarrow> helper \<Rightarrow> string \<Rightarrow> string \<Rightarrow> Devbox \<Rightarrow> (string \<times> string) list \<Rightarrow> world \<Rightarrow>
   failure option \<times> world" where
  "Reconcile_forward r h ns n devbox recLabels w =
     (case RetryOnConflict DefaultRetry_Steps (addFinalizer_fn h ns n) () w of
        (Some f, u, w1) \<Rightarrow> (Some f, w1)
      | (None, u, w1) \<Rightarrow> Reconcile_mirror r h ns n devbox recLabels w1)"

definition Reconcile ::
  "DevboxReconciler \<Rightarrow> helper \<Rightarrow> string \<Rightarrow> string \<Rightarrow> world \<Rightarrow> failure option \<times> world" where
  "Reconcile r h ns n w =
     (case Get_Devbox ns n w of
        (Inl e, w1) \<Rightarrow> (map_option Err (IgnoreNotFound e), w1)
      | (Inr devbox, w1) \<Rightarrow>
          if DeletionTimestamp_IsZero devbox
          then Reconcile_forward r h ns n devbox (recLabelsOf h devbox) w1
          else Reconcile_delete h devbox (recLabelsOf h devbox) w1)"

section \<open>A concrete cluster\<close>

text \<open>
  One instance of the parameters and one devbox, used to run the model on concrete
  inputs.
\<close>

definition exampleHelper :: helper where
  "exampleHelper =
     \<lparr>FinalizerName = ''devbox.sealos.io/finalizer'',
      DefaultManagedBy = ''sealos'',
      DevBoxPartOf = ''devbox'',
      RecommendedLabels = (\<lambda>n m p. [(''name'', n), (''managed-by'', m), (''part-of'', p)]),
      IsExceededQuotaError = (\<lambda>e. e = ApiError ''exceeded quota''),
      GenerateDevboxPhase = (\<lambda>d ps. if ps = [] then ''Stopped'' else ''Running''),
      UpdateDevboxStatus = (\<lambda>current latest.
        latest\<lparr>Status := (Status latest)\<lparr>Phase := Phase (Status current),
          Status_State := Status_State (Status current),
          LastTerminationState := LastTerminationState (Status current),
          Status_CommitHistory := Status_CommitHistory (Status current)\<rparr>\<rparr>),
      UpdatePredicatedCommitStatus = (\<lambda>d p. d),
      UpdateCommitHistory = (\<lambda>d p b. d),
      PodMatchExpectations = (\<lambda>e p. Container_Image (hd (Containers (Pod_Spec e))) =
                                      Container_Image (hd (Containers (Pod_Spec p)))),
      GeneratePodLabels = (\<lambda>d rt. [(''name'', Name d), (''managed-by'', ''sealos''), (''part-of'', ''devbox'')]),
      GeneratePodAnnotations = (\<lambda>d rt. []),
      GenerateProxyPodLabels = (\<lambda>d rt. [(''proxy'', Name d)]),
      GenerateProxyPodResourceRequirements = [],
      GenerateDevboxEnvVars = (\<lambda>d c. []),
      GetLastSuccessCommitImageName = (\<lambda>d rt. Config_Image (Config rt)),
      GenerateSSHVolume = (\<lambda>d. ''ssh''),
      GenerateSSHVolumeMounts = [''ssh''],
      GenerateWorkingDir = (\<lambda>d rt. ''/home''),
      GenerateCommand = (\<lambda>d rt. []),
      GenerateDevboxArgs = (\<lambda>d rt. []),
      GenerateResourceRequirements = (\<lambda>d a b. []),
      SignedString = (\<lambda>m k c. Inr (''hs256.'' @ k @ ''.'' @ DevboxName c @ ''.'' @ NameSpace c)),
      Format = (\<lambda>t f. ''t'')\<rparr>"

definition exampleReconciler :: DevboxReconciler where
  "exampleReconciler =
     \<lparr>CommitImageRegistry = ''registry'', RequestEphemeralStorage = ''1Gi'',
      LimitEphemeralStorage = ''2Gi'', WebSocketImage = ''ws-proxy:latest'', DebugMode = False,
      WebsocketProxyDomain = ''example.com'', IngressClass = ''nginx'', EnableAutoShutdown = True,
      ShutdownServerKey = ''key'', ShutdownServerAddr = ''http://shutdown''\<rparr>"

definition exampleLabels :: "(string \<times> string) list" where
  "exampleLabels = [(''name'', ''box''), (''managed-by'', ''sealos''), (''part-of'', ''devbox'')]"

definition exampleDevbox :: "DevboxState \<Rightarrow> NetworkType \<Rightarrow> Devbox" where
  "exampleDevbox st nt =
     \<lparr>Name = ''box'', Namespace = ''ns'', Labels = [], Annotations = [],
      Finalizers = [''devbox.sealos.io/finalizer''], DeletionTimestamp_IsZero = True,
      OwnerReferences = [],
      Spec = \<lparr>State = st, NetworkSpec = \<lparr>NetworkSpec_Type = nt, ExtraPorts = []\<rparr>,
              AutoShutdownSpec = \<lparr>AutoShutdown_Enable = True, AutoShutdown_Time = ''30m''\<rparr>,
              RuntimeRef = \<lparr>RuntimeRef_Name = ''go'', RuntimeRef_Namespace = []\<rparr>,
              ExtraEnvs = [], ExtraVolumes = [], ExtraVolumeMounts = [], Tolerations = [],
              Affinity = None\<rparr>,
      Status = \<lparr>Network = \<lparr>Network_Type = nt, Network_NodePort = 0, Network_WebSocket = []\<rparr>,
                Phase = [], Status_State = ContainerStateEmpty,
                LastTerminationState = ContainerStateEmpty, Status_CommitHistory = []\<rparr>\<rparr>"

definition exampleRuntime :: Runtime where
  "exampleRuntime =
     \<lparr>Name = ''go'', Namespace = ''ns'', Labels = [], Annotations = [], Finalizers = [],
      DeletionTimestamp_IsZero = True, OwnerReferences = [],
      Config = \<lparr>Config_Image = ''golang:1.22'', Config_Ports = [], Config_Env = [],
                Config_Volumes = [], Config_VolumeMounts = []\<rparr>\<rparr>"

definition examplePod :: "string \<Rightarrow> string list \<Rightarrow> ContainerStatus list \<Rightarrow> Pod" where
  "examplePod n fs cs =
     \<lparr>Name = n, Namespace = ''ns'', Labels = exampleLabels, Annotations = [],
      Finalizers = fs, DeletionTimestamp_IsZero = True, OwnerReferences = [],
      Pod_Spec = \<lparr>TerminationGracePeriodSeconds = Some 300, AutomountServiceAccountToken = Some False,
                  RestartPolicy = ''Never'', Hostname = ''box'', Containers = [], Volumes = [],
                  Pod_Tolerations = [], Pod_Affinity = None\<rparr>,
      Pod_Status = \<lparr>Pod_Phase = PodRunning, ContainerStatuses = cs\<rparr>\<rparr>"

definition exampleWorld :: "Devbox \<Rightarrow> Pod list \<Rightarrow> error option list \<Rightarrow> world" where
  "exampleWorld d ps sc =
     \<lparr>devboxes = [d], secrets = [], pods = ps, services = [], deployments = [], ingresses = [],
      runtimes = [exampleRuntime], script = sc, randoms = [], clock = [], nodePorts = [30001, 30002],
      keypairs = [Inr (''pub'', ''priv'')], trace = []\<rparr>"


definition exampleFinalizerPod :: Pod where
  "exampleFinalizerPod = examplePod ''box-aaaaa'' [''devbox.sealos.io/finalizer''] []"

definition quotaWorld :: world where
  "quotaWorld =
     exampleWorld (exampleDevbox DevboxStateRunning NetworkTypeNodePort) []
       [None, None, None, Some (ApiError ''exceeded quota'')]"

definition quotaRefusedWorld :: world where
  "quotaRefusedWorld =
     exampleWorld (exampleDevbox DevboxStateRunning NetworkTypeNodePort) []
       [None, None, None, Some (ApiError ''exceeded quota''), Some Conflict]"

definition unpopulatedPodWorld :: world where
  "unpopulatedPodWorld =
     exampleWorld (exampleDevbox DevboxStateStopped NetworkTypeNodePort) [exampleFinalizerPod]
       [None, None, None]"

definition nilDataSecret :: Secret where
  "nilDataSecret =
     \<lparr>Name = ''box'', Namespace = ''ns'', Labels = [], Annotations = [], Finalizers = [],
      DeletionTimestamp_IsZero = True, OwnerReferences = [], Data = None\<rparr>"

definition nilDataWorld :: world where
  "nilDataWorld =
     (exampleWorld (exampleDevbox DevboxStateRunning NetworkTypeNodePort) [] [])
       \<lparr>secrets := [nilDataSecret]\<rparr>"



definition exampleService :: Service where
  "exampleService =
     \<lparr>Name = ''box-svc'', Namespace = ''ns'', Labels = exampleLabels, Annotations = [],
      Finalizers = [], DeletionTimestamp_IsZero = True, OwnerReferences = [],
      Service_Spec = \<lparr>Selector = exampleLabels, Service_Type = ServiceTypeNodePort,
        Service_Ports = [\<lparr>ServicePort_Name = ''devbox-ssh-port'', ServicePort_Port = 22,
          ServicePort_TargetPort = 22, ServicePort_Protocol = ''TCP'',
          ServicePort_NodePort = 30001\<rparr>]\<rparr>\<rparr>"



text \<open>
  A devbox in WebSocket mode that was running and is now stopped: its proxy deployment and
  its proxy ingress exist, its pod is gone.
\<close>

definition exampleProxyDeployment :: Deployment where
  "exampleProxyDeployment =
     \<lparr>Name = ''box-proxy-deployment'', Namespace = ''ns'', Labels = [(''proxy'', ''box'')],
      Annotations = [], Finalizers = [], DeletionTimestamp_IsZero = True,
      OwnerReferences = [\<lparr>OwnerKind = ''Devbox'', OwnerName = ''box'', Controller = True\<rparr>],
      Deployment_Spec =
        \<lparr>Replicas = Some 1, MatchLabels = [(''proxy'', ''box'')],
         Template =
           \<lparr>Template_Meta =
              \<lparr>Name = ''box-proxy-pod-abcde'', Namespace = ''ns'', Labels = [(''proxy'', ''box'')],
               Annotations = [], Finalizers = [], DeletionTimestamp_IsZero = True,
               OwnerReferences = []\<rparr>,
            Template_Spec = proxyPodSpec exampleReconciler exampleHelper []\<rparr>\<rparr>\<rparr>"

definition exampleProxyIngress :: Ingress where
  "exampleProxyIngress =
     \<lparr>Name = ''box-proxy-ingress'', Namespace = ''ns'', Labels = [], Annotations = [],
      Finalizers = [], DeletionTimestamp_IsZero = True,
      OwnerReferences = [\<lparr>OwnerKind = ''Devbox'', OwnerName = ''box'', Controller = True\<rparr>],
      Ingress_Spec =
        \<lparr>IngressClassName = ''nginx'',
         Rules = [\<lparr>Host = ''firsthost.example.com'',
                   Paths = [\<lparr>Path = ''/'', PathType = ''Prefix'',
                             Backend_Service_Name = ''box-proxy-svc'',
                             Backend_Service_Port = 80\<rparr>]\<rparr>]\<rparr>\<rparr>"

definition completeSecret :: Secret where
  "completeSecret =
     \<lparr>Name = ''box'', Namespace = ''ns'', Labels = exampleLabels, Annotations = [], Finalizers = [],
      DeletionTimestamp_IsZero = True,
      OwnerReferences = [\<lparr>OwnerKind = ''Devbox'', OwnerName = ''box'', Controller = True\<rparr>],
      Data = Some [(''SEALOS_DEVBOX_JWT_SECRET'', ''token''), (''SEALOS_DEVBOX_PUBLIC_KEY'', ''pub''),
                   (''SEALOS_DEVBOX_PRIVATE_KEY'', ''priv''),
                   (''SEALOS_DEVBOX_AUTHORIZED_KEYS'', ''pub'')]\<rparr>"

definition stoppedProxyWorld :: world where
  "stoppedProxyWorld =
     (exampleWorld (exampleDevbox DevboxStateStopped NetworkTypeWebSocket) [] [])
       \<lparr>secrets := [completeSecret], deployments := [exampleProxyDeployment],
        ingresses := [exampleProxyIngress], randoms := [''secondhost'', ''thirdhost'']\<rparr>"

text \<open>A runtime that declares two ports, and a service that has one of them.\<close>

definition twoPortRuntime :: Runtime where
  "twoPortRuntime =
     exampleRuntime\<lparr>Config := (Config exampleRuntime)\<lparr>Config_Ports :=
       [\<lparr>Port_Name = ''devbox-ssh-port'', Port_ContainerPort = 22, Port_Protocol = ''TCP''\<rparr>,
        \<lparr>Port_Name = ''http'', Port_ContainerPort = 80, Port_Protocol = ''TCP''\<rparr>]\<rparr>\<rparr>"

definition twoPortWorld :: world where
  "twoPortWorld =
     (exampleWorld (exampleDevbox DevboxStateRunning NetworkTypeNodePort) [] [])
       \<lparr>services := [exampleService], runtimes := [twoPortRuntime]\<rparr>"

definition is_event :: "action \<Rightarrow> bool" where
  "is_event a = (case a of AEvent t r m \<Rightarrow> True | _ \<Rightarrow> False)"

text \<open>The host that the status of the devbox publishes, and the hosts of the stored ingress.\<close>

definition published_host :: "string \<Rightarrow> string \<Rightarrow> world \<Rightarrow> string option" where
  "published_host ns n w =
     map_option (\<lambda>d. Network_WebSocket (Network (Status d))) (lookup ns n (devboxes w))"

definition ingress_hosts :: "string \<Rightarrow> string \<Rightarrow> world \<Rightarrow> string list" where
  "ingress_hosts ns n w =
     (case lookup ns n (ingresses w) of
        None \<Rightarrow> []
      | Some i \<Rightarrow> map Host (Rules (Ingress_Spec i)))"

section \<open>Observations on the store\<close>

text \<open>The stored devbox under a key is live (not marked for deletion) and has the given state.\<close>

definition stored_state_is :: "string \<Rightarrow> string \<Rightarrow> DevboxState \<Rightarrow> world \<Rightarrow> bool" where
  "stored_state_is ns n st w =
     (case lookup ns n (devboxes w) of
        None \<Rightarrow> False
      | Some d \<Rightarrow> State (Spec d) = st \<and> DeletionTimestamp_IsZero d)"

definition runtimeKey :: "Devbox \<Rightarrow> string \<times> string" where
  "runtimeKey devbox =
     (if RuntimeRef_Namespace (RuntimeRef (Spec devbox)) = [] then Namespace devbox
      else RuntimeRef_Namespace (RuntimeRef (Spec devbox)),
      RuntimeRef_Name (RuntimeRef (Spec devbox)))"

text \<open>The store answers the next \<open>k\<close> calls of the client: the environment refuses none.\<close>

definition answers :: "nat \<Rightarrow> world \<Rightarrow> bool" where
  "answers k w = list_all (\<lambda>f. f = None) (take k (script w))"





definition answers_all :: "world \<Rightarrow> bool" where
  "answers_all w = list_all (\<lambda>f. f = None) (script w)"



text \<open>The proxy objects of the store, which only the network step writes.\<close>

definition proxy_objects :: "world \<Rightarrow> Deployment list \<times> Ingress list" where
  "proxy_objects w = (deployments w, ingresses w)"

text \<open>
  An environment that never answers "not found" for an object that the store may have:
  the errors it raises are of other kinds.
\<close>

definition honest :: "world \<Rightarrow> bool" where
  "honest w = list_all (\<lambda>f. case f of None \<Rightarrow> True | Some e \<Rightarrow> \<not> IsNotFound e) (script w)"




text \<open>The stored devbox under a key is live and has the given spec.\<close>

definition stored_spec :: "string \<Rightarrow> string \<Rightarrow> DevboxSpec \<Rightarrow> world \<Rightarrow> bool" where
  "stored_spec ns n sp w =
     (case lookup ns n (devboxes w) of
        None \<Rightarrow> False
      | Some d \<Rightarrow> Spec d = sp \<and> DeletionTimestamp_IsZero d)"

section \<open>Facts about the world\<close>

lemma tick_fields [simp]:
  "devboxes (tick a w) = devboxes w" "secrets (tick a w) = secrets w" "pods (tick a w) = pods w"
  "services (tick a w) = services w" "deployments (tick a w) = deployments w"
  "ingresses (tick a w) = ingresses w" "runtimes (tick a w) = runtimes w"
  "randoms (tick a w) = randoms w" "clock (tick a w) = clock w"
  "nodePorts (tick a w) = nodePorts w" "keypairs (tick a w) = keypairs w"
  "script (tick a w) = tl (script w)" "trace (tick a w) = trace w @ [a]"
  by (simp_all add: tick_def)

lemma Eventf_fields [simp]:
  "devboxes (Eventf t m x w) = devboxes w" "secrets (Eventf t m x w) = secrets w"
  "pods (Eventf t m x w) = pods w" "services (Eventf t m x w) = services w"
  "deployments (Eventf t m x w) = deployments w" "ingresses (Eventf t m x w) = ingresses w"
  "runtimes (Eventf t m x w) = runtimes w" "randoms (Eventf t m x w) = randoms w"
  "clock (Eventf t m x w) = clock w" "nodePorts (Eventf t m x w) = nodePorts w"
  "keypairs (Eventf t m x w) = keypairs w" "script (Eventf t m x w) = script w"
  "trace (Eventf t m x w) = trace w @ [AEvent t m x]"
  by (simp_all add: Eventf_def)

lemma next_fault_Cons [simp]: "next_fault (f # fs) = f"
  by (simp add: next_fault_def)

lemma next_fault_Nil [simp]: "next_fault [] = None"
  by (simp add: next_fault_def)

lemma fault_script [simp]: "script w = f # fs \<Longrightarrow> fault w = f"
  by (simp add: fault_def)

lemma fault_tick [simp]: "script w = f # fs \<Longrightarrow> fault (tick a w) = next_fault fs"
  by (simp add: fault_def)

lemma lookup_replace:
  "lookup ns n xs = Some old \<Longrightarrow> Namespace x = ns \<Longrightarrow> Name x = n \<Longrightarrow> lookup ns n (replace x xs) = Some x"
  by (induction xs) (auto simp: lookup_def replace_def has_key_def)

lemma fst_syncPod:
  assumes "fault w = None"
    and "length (filter (selected (Namespace devbox) recLabels) (pods w)) \<le> 1"
  shows "fst (syncPod r h devbox recLabels w) =
         fst (syncPod_switch r h devbox (filter (selected (Namespace devbox) recLabels) (pods w))
                (tick (AList KPod (Namespace devbox) recLabels) w))"
  using assms
  by (simp add: syncPod_def List_Pod_def client_List_def split: prod.splits)

lemma fault_upd [simp]:
  "fault (devboxes_update a w) = fault w" "fault (secrets_update b w) = fault w"
  "fault (pods_update c w) = fault w" "fault (services_update d w) = fault w"
  "fault (deployments_update e w) = fault w" "fault (ingresses_update f w) = fault w"
  "fault (randoms_update g w) = fault w" "fault (clock_update i w) = fault w"
  "fault (nodePorts_update j w) = fault w" "fault (keypairs_update k w) = fault w"
  "fault (trace_update l w) = fault w" "fault (Eventf t m x w) = fault w"
  by (simp_all add: fault_def)

lemma Update_Pod_live:
  assumes "fault w = None"
    and "lookup (Namespace x) (Name x) (pods w) = Some old"
    and "DeletionTimestamp_IsZero old"
  shows "Update_Pod x w =
           (Inr (x\<lparr>Pod_Status := Pod_Status old, DeletionTimestamp_IsZero := True\<rparr>),
            (tick (AUpdate KPod (Namespace x) (Name x)) w)
              \<lparr>pods := replace (x\<lparr>Pod_Status := Pod_Status old, DeletionTimestamp_IsZero := True\<rparr>) (pods w)\<rparr>)"
  using assms
  by (simp add: Update_Pod_def client_Update_def store_update_def pod_merge_def Let_def)

lemma Delete_Pod_found:
  assumes "fault w = None"
    and "lookup (Namespace x) (Name x) (pods w) = Some old"
  shows "fst (Delete_Pod x w) = None"
  using assms
  by (simp add: Delete_Pod_def client_Delete_def store_delete_def)

lemma deletePod_panics:
  assumes "script w = None # None # rest"
    and "lookup (Namespace pod) (Name pod) (pods w) = Some pod"
    and "DeletionTimestamp_IsZero pod"
    and "ContainerStatuses (Pod_Status pod) = []"
  shows "fst (deletePod h devbox pod w) = Some (Panic ''index out of range [0] with length 0'')"
proof -
  let ?p = "fst (RemoveFinalizer pod (FinalizerName h))"
  let ?p1 = "?p\<lparr>Pod_Status := Pod_Status pod, DeletionTimestamp_IsZero := True\<rparr>"
  let ?w1 = "(tick (AUpdate KPod (Namespace ?p) (Name ?p)) w)\<lparr>pods := replace ?p1 (pods w)\<rparr>"
  have key: "Namespace ?p = Namespace pod" "Name ?p = Name pod"
    by (simp_all add: RemoveFinalizer_def)
  have up: "Update_Pod ?p w = (Inr ?p1, ?w1)"
    by (rule Update_Pod_live) (use assms key in simp_all)
  have "lookup (Namespace ?p1) (Name ?p1) (pods ?w1) = Some ?p1"
    using assms(2) key by (simp add: lookup_replace)
  moreover have "fault ?w1 = None"
    using assms(1) by simp
  ultimately have "fst (Delete_Pod ?p1 ?w1) = None"
    by (rule Delete_Pod_found[rotated])
  then obtain w2 where del: "Delete_Pod ?p1 ?w1 = (None, w2)"
    by (cases "Delete_Pod ?p1 ?w1") auto
  show ?thesis
    using assms(4) by (simp add: deletePod_def up del)
qed


lemma lookup_replace_other:
  "\<not> (Namespace x = ns \<and> Name x = n) \<Longrightarrow> lookup ns n (replace x xs) = lookup ns n xs"
  by (induction xs) (auto simp: lookup_def replace_def has_key_def)

lemma lookup_remove_other:
  "\<not> (ns' = ns \<and> n' = n) \<Longrightarrow> lookup ns n (remove ns' n' xs) = lookup ns n xs"
  by (induction xs) (auto simp: lookup_def remove_def has_key_def)

lemma OnError_preserves:
  assumes "\<And>s w. I s w \<Longrightarrow> I (fst (snd (fn s w))) (snd (snd (fn s w)))"
    and "I s w"
  shows "I (fst (snd (OnError k rt fn le s w))) (snd (snd (OnError k rt fn le s w)))"
  using assms(2)
proof (induction k arbitrary: le s w)
  case 0
  then show ?case by (simp split: option.splits)
next
  case (Suc k)
  have step: "I (fst (snd (fn s w))) (snd (snd (fn s w)))"
    using assms(1) Suc.prems by blast
  show ?case
  proof (cases "fn s w")
    case (fields res s' w')
    with step have I': "I s' w'" by simp
    show ?thesis
      using fields I' Suc.IH[OF I'] by (simp split: option.splits failure.splits)
  qed
qed

lemma Get_Devbox_world: "snd (Get_Devbox ns n w) = tick (AGet KDevbox ns n) w"
  by (simp add: Get_Devbox_def client_Get_def split: option.splits)

lemma syncPod_deferred_preserves:
  assumes t: "\<And>a w. P w \<Longrightarrow> P (tick a w)"
    and u: "\<And>x w. P w \<Longrightarrow> P (snd (Status_Update x w))"
    and e: "\<And>t m x w. P w \<Longrightarrow> P (Eventf t m x w)"
    and Q: "\<And>d items. Q d \<Longrightarrow> Q (d\<lparr>Status := (Status d)\<lparr>Phase := GenerateDevboxPhase h d items\<rparr>\<rparr>)"
    and "P w" "Q d"
  shows "Q (fst (syncPod_deferred h items d w)) \<and> P (snd (syncPod_deferred h items d w))"
proof -
  let ?I = "\<lambda>s w. Q s \<and> P w"
  have fn: "\<And>s w. ?I s w \<Longrightarrow> ?I (fst (snd (syncPod_deferred_fn h items s w))) (snd (snd (syncPod_deferred_fn h items s w)))"
  proof -
    fix s w assume I: "?I s w"
    have g: "P (snd (Get_Devbox (Namespace s) (Name s) w))"
      using I t by (simp add: Get_Devbox_world)
    show "?I (fst (snd (syncPod_deferred_fn h items s w))) (snd (snd (syncPod_deferred_fn h items s w)))"
    proof (cases "Get_Devbox (Namespace s) (Name s) w")
      case (Pair res w1)
      with g have P1: "P w1" by simp
      show ?thesis
      proof (cases res)
        case (Inl err)
        then show ?thesis using Pair P1 I by (simp add: syncPod_deferred_fn_def)
      next
        case (Inr latest)
        let ?d1 = "s\<lparr>Status := (Status s)\<lparr>Phase := GenerateDevboxPhase h s items\<rparr>\<rparr>"
        have "P (snd (Status_Update (UpdateDevboxStatus h ?d1 latest) w1))"
          using u P1 by blast
        then show ?thesis
          using Pair Inr I Q[of s items]
          by (cases "Status_Update (UpdateDevboxStatus h ?d1 latest) w1")
             (auto simp: syncPod_deferred_fn_def Let_def split: sum.splits)
      qed
    qed
  qed
  have "?I (fst (snd (RetryOnConflict DefaultRetry_Steps (syncPod_deferred_fn h items) d w)))
           (snd (snd (RetryOnConflict DefaultRetry_Steps (syncPod_deferred_fn h items) d w)))"
    unfolding RetryOnConflict_def
    by (rule OnError_preserves[where I = ?I]) (use fn assms(5,6) in auto)
  then show ?thesis
    using e
    by (cases "RetryOnConflict DefaultRetry_Steps (syncPod_deferred_fn h items) d w")
       (auto simp: syncPod_deferred_def split: option.splits failure.splits)
qed


lemma time_Now_world: "snd (time_Now w) = w\<lparr>clock := tl (clock w)\<rparr>"
  by (simp add: time_Now_def split: list.splits)

lemma rand_String_world: "snd (rand_String k w) = w\<lparr>randoms := tl (randoms w)\<rparr>"
  by (simp add: rand_String_def split: list.splits)

lemma generateNextCommitHistory_world:
  "snd (generateNextCommitHistory r h d w) =
     w\<lparr>clock := tl (tl (clock w)), randoms := tl (tl (randoms w))\<rparr>"
  by (simp add: generateNextCommitHistory_def generateImageName_def time_Now_def rand_String_def
      split: list.splits)

lemma lookup_Some_key: "lookup ns n xs = Some x \<Longrightarrow> Namespace x = ns \<and> Name x = n"
  by (auto simp: lookup_def has_key_def find_Some_iff)

lemma getRuntime_found:
  assumes "fault w = None" and "lookup (fst (runtimeKey d)) (snd (runtimeKey d)) (runtimes w) = Some rt"
  shows "getRuntime d w = (Inr rt, tick (AGet KRuntime (fst (runtimeKey d)) (snd (runtimeKey d))) w)"
  using assms by (simp add: getRuntime_def Get_Runtime_def client_Get_def runtimeKey_def)

lemma stored_state_tick [simp]: "stored_state_is ns n st (tick a w) = stored_state_is ns n st w"
  by (simp add: stored_state_is_def)

lemma stored_state_Eventf [simp]: "stored_state_is ns n st (Eventf t m x w) = stored_state_is ns n st w"
  by (simp add: stored_state_is_def)

lemma stored_state_Status_Update:
  assumes "stored_state_is ns n st w"
  shows "stored_state_is ns n st (snd (Status_Update x w))"
proof (cases "fault w")
  case (Some e)
  then show ?thesis using assms by (simp add: Status_Update_def)
next
  case None
  show ?thesis
  proof (cases "lookup (Namespace x) (Name x) (devboxes w)")
    case N: None
    then show ?thesis using None assms by (simp add: Status_Update_def store_update_def)
  next
    case (Some old)
    show ?thesis
    proof (cases "Namespace x = ns \<and> Name x = n")
      case True
      have k: "Namespace old = ns" "Name old = n"
        using lookup_Some_key[of "Namespace x" "Name x" "devboxes w" old] Some True by simp_all
      let ?x' = "old\<lparr>Status := Status x, DeletionTimestamp_IsZero := True\<rparr>"
      have "lookup ns n (replace ?x' (devboxes w)) = Some ?x'"
        by (rule lookup_replace[where old = old]) (use Some True k in simp_all)
      then show ?thesis
        using None Some assms True
        by (simp add: Status_Update_def store_update_def stored_state_is_def Let_def
            devbox_status_merge_def)
    next
      case False
      have k: "Namespace old = Namespace x" "Name old = Name x"
        using lookup_Some_key[of "Namespace x" "Name x" "devboxes w" old] Some by simp_all
      show ?thesis
        using None Some assms False k
        by (simp add: Status_Update_def store_update_def stored_state_is_def Let_def
            devbox_status_merge_def lookup_replace_other lookup_remove_other)
    qed
  qed
qed

lemma Status_Update_pods: "pods (snd (Status_Update x w)) = pods w"
  by (simp add: Status_Update_def split: option.splits sum.splits)

lemma Status_Update_trace: "a \<in> set (trace w) \<Longrightarrow> a \<in> set (trace (snd (Status_Update x w)))"
  by (simp add: Status_Update_def split: option.splits sum.splits)

lemma Update_Devbox_stored:
  assumes "fault w = None"
    and "lookup (Namespace x) (Name x) (devboxes w) = Some old"
    and "DeletionTimestamp_IsZero old"
  shows "Update_Devbox x w =
           (Inr (x\<lparr>Status := Status old, DeletionTimestamp_IsZero := True\<rparr>),
            (tick (AUpdate KDevbox (Namespace x) (Name x)) w)
              \<lparr>devboxes := replace (x\<lparr>Status := Status old, DeletionTimestamp_IsZero := True\<rparr>) (devboxes w)\<rparr>)"
  using assms
  by (simp add: Update_Devbox_def client_Update_def store_update_def devbox_merge_def Let_def)

lemma Update_Devbox_fault:
  assumes "fault w = Some e"
  shows "Update_Devbox x w = (Inl e, tick (AUpdate KDevbox (Namespace x) (Name x)) w)"
  using assms by (simp add: Update_Devbox_def client_Update_def)

lemma syncPod_switch_quota:
  assumes st: "State (Spec devbox) = DevboxStateRunning"
    and live: "DeletionTimestamp_IsZero devbox"
    and stored: "lookup (Namespace devbox) (Name devbox) (devboxes w) = Some devbox"
    and rt: "lookup (fst (runtimeKey devbox)) (snd (runtimeKey devbox)) (runtimes w) = Some rt"
    and sc: "script w = None # Some e # rest"
    and q: "IsExceededQuotaError h e"
  shows "\<exists>w'. syncPod_switch r h devbox [] w = (None, setState DevboxStateStopped devbox, [], w')
          \<and> pods w' = pods w
          \<and> AEvent EventTypeWarning ''Devbox is exceeded quota'' (Text ''Devbox is exceeded quota'') \<in> set (trace w')
          \<and> (next_fault rest = None \<longrightarrow> stored_state_is (Namespace devbox) (Name devbox) DevboxStateStopped w')
          \<and> (next_fault rest \<noteq> None \<longrightarrow> stored_state_is (Namespace devbox) (Name devbox) DevboxStateRunning w')"
proof -
  let ?w1 = "tick (AGet KRuntime (fst (runtimeKey devbox)) (snd (runtimeKey devbox))) w"
  have g: "getRuntime devbox w = (Inr rt, ?w1)"
    using sc rt by (intro getRuntime_found) simp_all
  obtain nch w2 where n: "generateNextCommitHistory r h devbox ?w1 = (nch, w2)"
    by (cases "generateNextCommitHistory r h devbox ?w1")
  have w2: "w2 = ?w1\<lparr>clock := tl (tl (clock ?w1)), randoms := tl (tl (randoms ?w1))\<rparr>"
    using generateNextCommitHistory_world[of r h devbox ?w1] n by simp
  let ?pod = "generateDevboxPod r h devbox rt nch"
  let ?p1 = "?pod\<lparr>Pod_Status := \<lparr>Pod_Phase = PodPending, ContainerStatuses = []\<rparr>\<rparr>"
  let ?w3 = "tick (ACreate KPod (Namespace ?p1) (Name ?p1)) w2"
  have f2: "fault w2 = Some e" using sc w2 by (simp add: fault_def)
  have c: "createPod devbox ?pod nch w2 = (Some e, devbox, ?w3)"
    using f2 by (simp add: createPod_def Create_Pod_def client_Create_def)
  let ?w4 = "Eventf EventTypeWarning ''Devbox is exceeded quota'' (Text ''Devbox is exceeded quota'') ?w3"
  let ?d1 = "setState DevboxStateStopped devbox"
  have key: "Namespace ?d1 = Namespace devbox" "Name ?d1 = Name devbox"
    by (simp_all add: setState_def)
  have f4: "fault ?w4 = next_fault rest" using sc w2 by (simp add: fault_def)
  have body: "syncPod_switch r h devbox [] w =
        (case Update_Devbox ?d1 ?w4 of
           (Inl e', w5) \<Rightarrow> (None, ?d1, [], w5)
         | (Inr d2, w5) \<Rightarrow> (None, d2, [], w5))"
    using st q by (simp add: syncPod_switch_def syncPod_Running_def g n syncPod_create_def c)
  show ?thesis
  proof (cases "next_fault rest")
    case (Some e')
    have "Update_Devbox ?d1 ?w4 = (Inl e', tick (AUpdate KDevbox (Namespace ?d1) (Name ?d1)) ?w4)"
      using f4 Some by (intro Update_Devbox_fault) simp
    then show ?thesis
      using body Some w2 stored st live by (simp add: stored_state_is_def)
  next
    case None
    have "lookup (Namespace ?d1) (Name ?d1) (devboxes ?w4) = Some devbox"
      using stored key w2 by simp
    then have u: "Update_Devbox ?d1 ?w4 =
           (Inr (?d1\<lparr>Status := Status devbox, DeletionTimestamp_IsZero := True\<rparr>),
            (tick (AUpdate KDevbox (Namespace ?d1) (Name ?d1)) ?w4)
              \<lparr>devboxes := replace (?d1\<lparr>Status := Status devbox, DeletionTimestamp_IsZero := True\<rparr>) (devboxes ?w4)\<rparr>)"
      using f4 None live by (intro Update_Devbox_stored) simp_all
    have same: "?d1\<lparr>Status := Status devbox, DeletionTimestamp_IsZero := True\<rparr> = ?d1"
      using live by (simp add: setState_def)
    have "lookup (Namespace devbox) (Name devbox) (replace ?d1 (devboxes ?w4)) = Some ?d1"
      using stored key w2 by (intro lookup_replace[where old = devbox]) simp_all
    then have "stored_state_is (Namespace devbox) (Name devbox) DevboxStateStopped
            ((tick (AUpdate KDevbox (Namespace ?d1) (Name ?d1)) ?w4)\<lparr>devboxes := replace ?d1 (devboxes ?w4)\<rparr>)"
      using live by (simp add: stored_state_is_def setState_def)
    then show ?thesis
      using body u same w2 None by simp
  qed
qed



section \<open>More than one pod\<close>

text \<open>
  C6. When the list of the devbox's pods has more than one item, the pod step of the
  pass fails with the error "more than one pod found", which is reported as a warning
  event. The pass has then made two calls, both reads (the devbox, the pod list): the
  world differs from the one before only by the consumed answers and the trace, so no pod
  was created or deleted.
\<close>

theorem syncPod_more_than_one_pod:
  assumes "script w = None # None # rest"
    and "lookup ns n (devboxes w) = Some devbox"
    and "1 < length (filter (selected (Namespace devbox) recLabels) (pods w))"
  shows "Reconcile_pod r h ns n d0 recLabels w =
           (Some (Err (Msg ''more than one pod found'')),
            w\<lparr>script := rest,
              trace := trace w @
                [AGet KDevbox ns n, AList KPod (Namespace devbox) recLabels,
                 AEvent EventTypeWarning ''Sync pod failed''
                   (ErrorText (Msg ''more than one pod found''))]\<rparr>)"
  using assms
  by (simp add: Reconcile_pod_def RetryOnConflict_def DefaultRetry_Steps_def eval_nat_numeral
      syncPod_fn_def Get_Devbox_def client_Get_def syncPod_def List_Pod_def client_List_def
      tick_def Eventf_def fault_def)

theorem syncPod_more_than_one_pod_witness:
  "Reconcile_pod exampleReconciler exampleHelper ''ns'' ''box''
     (exampleDevbox DevboxStateRunning NetworkTypeNodePort) exampleLabels
     (exampleWorld (exampleDevbox DevboxStateRunning NetworkTypeNodePort)
        [examplePod ''box-aaaaa'' [] [], examplePod ''box-bbbbb'' [] []] [None, None]) =
   (Some (Err (Msg ''more than one pod found'')),
    (exampleWorld (exampleDevbox DevboxStateRunning NetworkTypeNodePort)
        [examplePod ''box-aaaaa'' [] [], examplePod ''box-bbbbb'' [] []] [None, None])
      \<lparr>script := [],
        trace := trace (exampleWorld (exampleDevbox DevboxStateRunning NetworkTypeNodePort)
            [examplePod ''box-aaaaa'' [] [], examplePod ''box-bbbbb'' [] []] [None, None]) @
          [AGet KDevbox ''ns'' ''box'',
           AList KPod (Namespace (exampleDevbox DevboxStateRunning NetworkTypeNodePort)) exampleLabels,
           AEvent EventTypeWarning ''Sync pod failed''
             (ErrorText (Msg ''more than one pod found''))]\<rparr>)"
  by (rule syncPod_more_than_one_pod) (code_simp+)


section \<open>Quota exceeded on pod creation\<close>
lemma syncPod_quota:
  assumes st: "State (Spec devbox) = DevboxStateRunning"
    and live: "DeletionTimestamp_IsZero devbox"
    and stored: "lookup (Namespace devbox) (Name devbox) (devboxes w) = Some devbox"
    and nopod: "filter (selected (Namespace devbox) recLabels) (pods w) = []"
    and rt: "lookup (fst (runtimeKey devbox)) (snd (runtimeKey devbox)) (runtimes w) = Some rt"
    and sc: "script w = None # None # Some e # rest"
    and q: "IsExceededQuotaError h e"
  shows "\<exists>d' w'. syncPod r h devbox recLabels w = (None, d', w')
          \<and> State (Spec d') = DevboxStateStopped
          \<and> Status_CommitHistory (Status d') = Status_CommitHistory (Status devbox)
          \<and> pods w' = pods w
          \<and> AEvent EventTypeWarning ''Devbox is exceeded quota'' (Text ''Devbox is exceeded quota'') \<in> set (trace w')
          \<and> (next_fault rest = None \<longrightarrow> stored_state_is (Namespace devbox) (Name devbox) DevboxStateStopped w')
          \<and> (next_fault rest \<noteq> None \<longrightarrow> stored_state_is (Namespace devbox) (Name devbox) DevboxStateRunning w')"
proof -
  let ?ev = "AEvent EventTypeWarning ''Devbox is exceeded quota'' (Text ''Devbox is exceeded quota'')"
  let ?w1 = "tick (AList KPod (Namespace devbox) recLabels) w"
  let ?P = "\<lambda>v. pods v = pods w \<and> ?ev \<in> set (trace v)
              \<and> (next_fault rest = None \<longrightarrow> stored_state_is (Namespace devbox) (Name devbox) DevboxStateStopped v)
              \<and> (next_fault rest \<noteq> None \<longrightarrow> stored_state_is (Namespace devbox) (Name devbox) DevboxStateRunning v)"
  let ?Q = "\<lambda>d. State (Spec d) = DevboxStateStopped
              \<and> Status_CommitHistory (Status d) = Status_CommitHistory (Status devbox)"
  obtain w2 where body: "syncPod_switch r h devbox [] ?w1 = (None, setState DevboxStateStopped devbox, [], w2)"
    and P2: "?P w2"
    using syncPod_switch_quota[of devbox ?w1 rt e rest h r] st live stored rt sc q by auto
  have Q2: "?Q (setState DevboxStateStopped devbox)"
    by (simp add: setState_def)
  obtain d3 w3 where def: "syncPod_deferred h [] (setState DevboxStateStopped devbox) w2 = (d3, w3)"
    by (cases "syncPod_deferred h [] (setState DevboxStateStopped devbox) w2")
  have "?Q (fst (syncPod_deferred h [] (setState DevboxStateStopped devbox) w2))
      \<and> ?P (snd (syncPod_deferred h [] (setState DevboxStateStopped devbox) w2))"
    by (rule syncPod_deferred_preserves[where P = ?P and Q = ?Q])
       (use P2 Q2 in \<open>auto simp: Status_Update_pods Status_Update_trace stored_state_Status_Update\<close>)
  then have "?Q d3" "?P w3" using def by simp_all
  moreover have "syncPod r h devbox recLabels w = (None, d3, w3)"
    using sc nopod body def by (simp add: syncPod_def List_Pod_def client_List_def)
  ultimately show ?thesis by (intro exI[of _ d3] exI[of _ w3]) simp
qed


text \<open>
  C1, as stated, fails: the code drops the error of the update that carries the new
  state (\<^verbatim>\<open>_ = r.Update(ctx, devbox)\<close>). In \<open>quotaRefusedWorld\<close> the creation of the pod
  is refused for quota and the update of the devbox is refused with a conflict: the pod
  step returns no error, and the stored devbox still has state Running, not Stopped.
\<close>

theorem syncPod_quota_update_refused:
  "fst (Reconcile_pod exampleReconciler exampleHelper ''ns'' ''box''
          (exampleDevbox DevboxStateRunning NetworkTypeNodePort) exampleLabels quotaRefusedWorld) = None
   \<and> stored_state_is ''ns'' ''box'' DevboxStateRunning
        (snd (Reconcile_pod exampleReconciler exampleHelper ''ns'' ''box''
          (exampleDevbox DevboxStateRunning NetworkTypeNodePort) exampleLabels quotaRefusedWorld))
   \<and> \<not> stored_state_is ''ns'' ''box'' DevboxStateStopped
        (snd (Reconcile_pod exampleReconciler exampleHelper ''ns'' ''box''
          (exampleDevbox DevboxStateRunning NetworkTypeNodePort) exampleLabels quotaRefusedWorld))"
  by code_simp

text \<open>
  C1, amended. The devbox is stored, live, has state Running and no pod; the runtime
  exists. The store answers the three reads of the pod step (the devbox, the pod list,
  the runtime) and the creation of the pod fails with an error that
  \<^verbatim>\<open>IsExceededQuotaError\<close> accepts. Then the pod step of the pass returns no error; no
  pod exists afterwards that did not before; the warning event "Devbox is exceeded
  quota" is in the trace; the stored devbox has state Stopped when the store accepts the
  update of the devbox, and keeps state Running when the update is refused, whose error
  is dropped. \<^verbatim>\<open>syncPod\<close> itself returns no error, and the devbox it worked on has
  state Stopped and the commit history it came with: no entry is appended.
\<close>

theorem syncPod_quota_exceeded:
  assumes st: "State (Spec devbox) = DevboxStateRunning"
    and live: "DeletionTimestamp_IsZero devbox"
    and stored: "lookup (Namespace devbox) (Name devbox) (devboxes w) = Some devbox"
    and nopod: "filter (selected (Namespace devbox) recLabels) (pods w) = []"
    and rt: "lookup (fst (runtimeKey devbox)) (snd (runtimeKey devbox)) (runtimes w) = Some rt"
    and sc: "script w = None # None # None # Some e # rest"
    and q: "IsExceededQuotaError h e"
  shows "fst (Reconcile_pod r h (Namespace devbox) (Name devbox) d0 recLabels w) = None
       \<and> pods (snd (Reconcile_pod r h (Namespace devbox) (Name devbox) d0 recLabels w)) = pods w
       \<and> AEvent EventTypeWarning ''Devbox is exceeded quota'' (Text ''Devbox is exceeded quota'')
            \<in> set (trace (snd (Reconcile_pod r h (Namespace devbox) (Name devbox) d0 recLabels w)))
       \<and> (next_fault rest = None \<longrightarrow>
            stored_state_is (Namespace devbox) (Name devbox) DevboxStateStopped
              (snd (Reconcile_pod r h (Namespace devbox) (Name devbox) d0 recLabels w)))
       \<and> (next_fault rest \<noteq> None \<longrightarrow>
            stored_state_is (Namespace devbox) (Name devbox) DevboxStateRunning
              (snd (Reconcile_pod r h (Namespace devbox) (Name devbox) d0 recLabels w)))
       \<and> fst (syncPod r h devbox recLabels (tick (AGet KDevbox (Namespace devbox) (Name devbox)) w)) = None
       \<and> State (Spec (fst (snd (syncPod r h devbox recLabels
            (tick (AGet KDevbox (Namespace devbox) (Name devbox)) w))))) = DevboxStateStopped
       \<and> Status_CommitHistory (Status (fst (snd (syncPod r h devbox recLabels
            (tick (AGet KDevbox (Namespace devbox) (Name devbox)) w))))) =
          Status_CommitHistory (Status devbox)"
proof -
  let ?w1 = "tick (AGet KDevbox (Namespace devbox) (Name devbox)) w"
  obtain d' w' where sp: "syncPod r h devbox recLabels ?w1 = (None, d', w')"
    and D: "State (Spec d') = DevboxStateStopped"
       "Status_CommitHistory (Status d') = Status_CommitHistory (Status devbox)"
    and W: "pods w' = pods w"
       "AEvent EventTypeWarning ''Devbox is exceeded quota'' (Text ''Devbox is exceeded quota'') \<in> set (trace w')"
       "next_fault rest = None \<longrightarrow> stored_state_is (Namespace devbox) (Name devbox) DevboxStateStopped w'"
       "next_fault rest \<noteq> None \<longrightarrow> stored_state_is (Namespace devbox) (Name devbox) DevboxStateRunning w'"
    using syncPod_quota[of devbox ?w1 recLabels rt e rest h r] st live stored nopod rt sc q by auto
  have "syncPod_fn r h (Namespace devbox) (Name devbox) recLabels d0 w = (None, d', w')"
    using sc stored sp by (simp add: syncPod_fn_def Get_Devbox_def client_Get_def)
  then have "Reconcile_pod r h (Namespace devbox) (Name devbox) d0 recLabels w =
        (None, Eventf EventTypeNormal ''Sync pod success'' (Text ''Sync pod success'') w')"
    by (simp add: Reconcile_pod_def RetryOnConflict_def DefaultRetry_Steps_def eval_nat_numeral)
  then show ?thesis
    using sp D W by simp
qed


theorem syncPod_quota_exceeded_witness:
  "fst (Reconcile_pod exampleReconciler exampleHelper ''ns'' ''box''
          (exampleDevbox DevboxStateRunning NetworkTypeNodePort) exampleLabels quotaWorld) = None
   \<and> pods (snd (Reconcile_pod exampleReconciler exampleHelper ''ns'' ''box''
          (exampleDevbox DevboxStateRunning NetworkTypeNodePort) exampleLabels quotaWorld)) = []
   \<and> stored_state_is ''ns'' ''box'' DevboxStateStopped
        (snd (Reconcile_pod exampleReconciler exampleHelper ''ns'' ''box''
          (exampleDevbox DevboxStateRunning NetworkTypeNodePort) exampleLabels quotaWorld))
   \<and> stored_state_is ''ns'' ''box'' DevboxStateRunning
        (snd (Reconcile_pod exampleReconciler exampleHelper ''ns'' ''box''
          (exampleDevbox DevboxStateRunning NetworkTypeNodePort) exampleLabels quotaRefusedWorld))"
proof -
  let ?d = "exampleDevbox DevboxStateRunning NetworkTypeNodePort"
  have 1: "State (Spec ?d) = DevboxStateRunning" by code_simp
  have 2: "DeletionTimestamp_IsZero ?d" by code_simp
  have 3: "lookup (Namespace ?d) (Name ?d) (devboxes quotaWorld) = Some ?d" by code_simp
  have 4: "filter (selected (Namespace ?d) exampleLabels) (pods quotaWorld) = []" by code_simp
  have 5: "lookup (fst (runtimeKey ?d)) (snd (runtimeKey ?d)) (runtimes quotaWorld) = Some exampleRuntime"
    by code_simp
  have 6: "script quotaWorld = None # None # None # Some (ApiError ''exceeded quota'') # []"
    by code_simp
  have 7: "IsExceededQuotaError exampleHelper (ApiError ''exceeded quota'')" by code_simp
  have n: "Namespace ?d = ''ns''" "Name ?d = ''box''" "pods quotaWorld = []"
    by (simp_all add: exampleDevbox_def quotaWorld_def exampleWorld_def)
  have r3: "lookup (Namespace ?d) (Name ?d) (devboxes quotaRefusedWorld) = Some ?d" by code_simp
  have r4: "filter (selected (Namespace ?d) exampleLabels) (pods quotaRefusedWorld) = []" by code_simp
  have r5: "lookup (fst (runtimeKey ?d)) (snd (runtimeKey ?d)) (runtimes quotaRefusedWorld) =
      Some exampleRuntime"
    by code_simp
  have r6: "script quotaRefusedWorld =
      None # None # None # Some (ApiError ''exceeded quota'') # [Some Conflict]"
    by code_simp
  show ?thesis
    using syncPod_quota_exceeded[OF 1 2 3 4 5 6 7, of exampleReconciler ?d]
      syncPod_quota_exceeded[OF 1 2 r3 r4 r5 r6 7, of exampleReconciler ?d] n
    by simp
qed

section \<open>The unguarded index in the Stopped path\<close>

text \<open>
  C10. A live pod with an empty list of container statuses is the devbox's only pod and
  the store answers the calls. With state Stopped, \<^verbatim>\<open>syncPod\<close> reaches \<^verbatim>\<open>deletePod\<close>,
  which removes the finalizer, deletes the pod and then indexes the first container
  status: the index panics. With state Running the length is checked first and
  \<^verbatim>\<open>syncPod\<close> returns the error "pod container size is 0".
\<close>

theorem deletePod_index_unguarded:
  assumes "filter (selected (Namespace devbox) recLabels) (pods w) = [pod]"
    and "lookup (Namespace pod) (Name pod) (pods w) = Some pod"
    and "DeletionTimestamp_IsZero pod"
    and "ContainerStatuses (Pod_Status pod) = []"
    and "lookup (fst (runtimeKey devbox)) (snd (runtimeKey devbox)) (runtimes w) = Some rt"
    and "script w = None # None # None # rest"
  shows "fst (syncPod r h (setState DevboxStateStopped devbox) recLabels w) =
           Some (Panic ''index out of range [0] with length 0'')
       \<and> fst (syncPod r h (setState DevboxStateRunning devbox) recLabels w) =
           Some (Err (Msg ''pod container size is 0''))"
proof
  let ?d = "setState DevboxStateStopped devbox"
  have ns: "Namespace ?d = Namespace devbox" by (simp add: setState_def)
  have "fst (syncPod r h ?d recLabels w) =
        fst (syncPod_switch r h ?d [pod] (tick (AList KPod (Namespace ?d) recLabels) w))"
    using fst_syncPod[of w ?d recLabels r h] assms(1,6) ns by simp
  also have "\<dots> = fst (deletePod h (UpdatePredicatedCommitStatus h (setStatusState ContainerStateEmpty ?d) pod) pod
                        (tick (AList KPod (Namespace ?d) recLabels) w))"
    using assms(3) by (simp add: syncPod_switch_def syncPod_Stopped_def with_pod_def setState_def split: prod.splits)
  also have "\<dots> = Some (Panic ''index out of range [0] with length 0'')"
    by (rule deletePod_panics[where rest = rest]) (use assms in simp_all)
  finally show "fst (syncPod r h ?d recLabels w) = Some (Panic ''index out of range [0] with length 0'')" .
next
  let ?d = "setState DevboxStateRunning devbox"
  have ns: "Namespace ?d = Namespace devbox" "runtimeKey ?d = runtimeKey devbox"
    by (simp_all add: setState_def runtimeKey_def)
  have "fst (syncPod r h ?d recLabels w) =
        fst (syncPod_switch r h ?d [pod] (tick (AList KPod (Namespace ?d) recLabels) w))"
    using fst_syncPod[of w ?d recLabels r h] assms(1,6) ns by simp
  also have "\<dots> = Some (Err (Msg ''pod container size is 0''))"
    using assms(4,5,6) ns getRuntime_found[of "tick (AList KPod (Namespace ?d) recLabels) w" ?d rt]
    by (simp add: syncPod_switch_def syncPod_Running_def syncPod_running_pod_def setState_def
        split: prod.splits)
  finally show "fst (syncPod r h ?d recLabels w) = Some (Err (Msg ''pod container size is 0''))" .
qed


theorem deletePod_index_unguarded_witness:
  "fst (syncPod exampleReconciler exampleHelper
          (setState DevboxStateStopped (exampleDevbox DevboxStateStopped NetworkTypeNodePort))
          exampleLabels unpopulatedPodWorld) =
     Some (Panic ''index out of range [0] with length 0'')
   \<and> fst (syncPod exampleReconciler exampleHelper
          (setState DevboxStateRunning (exampleDevbox DevboxStateStopped NetworkTypeNodePort))
          exampleLabels unpopulatedPodWorld) =
     Some (Err (Msg ''pod container size is 0''))"
  by (rule deletePod_index_unguarded[where pod = exampleFinalizerPod and rt = exampleRuntime and rest = "[]"])
     (code_simp+)



section \<open>The environment of the proxy deployment\<close>

lemma answers_Suc_fault: "answers (Suc k) w \<Longrightarrow> fault w = None"
  by (cases "script w") (simp_all add: answers_def fault_def)

lemma answers_tick: "answers (Suc k) w \<Longrightarrow> answers k (tick a w)"
  by (cases "script w") (simp_all add: answers_def)

lemma answers_less: "answers (Suc k) w \<Longrightarrow> answers k w"
  using set_take_subset_set_take[of k "Suc k" "script w"]
  by (auto simp: answers_def list_all_iff)

lemma FormatBool_true: "(FormatBool b = ''true'') = b"
  by (simp add: FormatBool_def)








section \<open>Cleanup\<close>






lemma RemoveFinalizer_fst [simp]:
  "Namespace (fst (RemoveFinalizer x fin)) = Namespace x"
  "Name (fst (RemoveFinalizer x fin)) = Name x"
  "Finalizers (fst (RemoveFinalizer x fin)) = filter (\<lambda>f. f \<noteq> fin) (Finalizers x)"
  by (simp_all add: RemoveFinalizer_def)








lemma answers_all_upd [simp]:
  "answers_all (devboxes_update a w) = answers_all w" "answers_all (secrets_update b w) = answers_all w"
  "answers_all (pods_update c w) = answers_all w" "answers_all (services_update d w) = answers_all w"
  "answers_all (deployments_update e w) = answers_all w" "answers_all (ingresses_update f w) = answers_all w"
  "answers_all (nodePorts_update j w) = answers_all w" "answers_all (Eventf t m x w) = answers_all w"
  by (simp_all add: answers_all_def)



lemma selected_mark [simp]: "selected ns sel (y\<lparr>DeletionTimestamp_IsZero := b\<rparr>) = selected ns sel y"
  by (simp add: selected_def MatchingLabels_def)






















section \<open>A secret with a nil data map\<close>

text \<open>
  C5, at a secret that exists with no data: the map is nil, the lookup of the JWT field
  finds nothing, and the assignment that backfills it panics. The pass ends in the panic.
\<close>

theorem syncSecret_nil_data_panics:
  "fst (syncSecret (exampleDevbox DevboxStateRunning NetworkTypeNodePort) exampleLabels nilDataWorld) =
     Some (Panic ''assignment to entry in nil map'')
   \<and> fst (Reconcile exampleReconciler exampleHelper ''ns'' ''box'' nilDataWorld) =
     Some (Panic ''assignment to entry in nil map'')"
  by code_simp


section \<open>The events of a pass\<close>

text \<open>
  C4, at a pass in which every step succeeds (a new devbox in NodePort mode that has the
  finalizer, in a store that answers every call). The pass returns no error. Its events
  are the success event of the secret step and the success event of the pod step, the
  latter twice (the deferred function of \<^verbatim>\<open>syncPod\<close> records it as well): after the
  network step, which succeeded, no event is recorded.
\<close>

theorem Reconcile_no_network_success_event:
  "fst (Reconcile exampleReconciler exampleHelper ''ns'' ''box''
          (exampleWorld (exampleDevbox DevboxStateRunning NetworkTypeNodePort) [] [])) = None
   \<and> filter is_event (trace (snd (Reconcile exampleReconciler exampleHelper ''ns'' ''box''
          (exampleWorld (exampleDevbox DevboxStateRunning NetworkTypeNodePort) [] [])))) =
      [AEvent EventTypeNormal ''Sync secret success'' (Text ''Sync secret success''),
       AEvent EventTypeNormal ''Sync pod success'' (Text ''Sync pod success''),
       AEvent EventTypeNormal ''Sync pod success'' (Text ''Sync pod success'')]"
  by code_simp

section \<open>Two passes in WebSocket mode\<close>

text \<open>
  C3, at a stopped devbox in WebSocket mode whose secret, proxy deployment and proxy
  ingress exist; the ingress has the host "firsthost.example.com". Two passes run one
  after the other with nothing else changing the store; the random source gives
  "secondhost" and then "thirdhost". Both passes return no error. The first publishes
  the host "secondhost.example.com" in the status of the devbox, the second
  "thirdhost.example.com": the second pass writes a status that differs from the one
  before it. The ingress keeps the host "firsthost.example.com", which neither status
  names.
\<close>

theorem Reconcile_twice_publishes_new_host:
  "fst (Reconcile exampleReconciler exampleHelper ''ns'' ''box'' stoppedProxyWorld) = None
   \<and> fst (Reconcile exampleReconciler exampleHelper ''ns'' ''box''
        (snd (Reconcile exampleReconciler exampleHelper ''ns'' ''box'' stoppedProxyWorld))) = None
   \<and> published_host ''ns'' ''box''
        (snd (Reconcile exampleReconciler exampleHelper ''ns'' ''box'' stoppedProxyWorld)) =
      Some ''secondhost.example.com''
   \<and> published_host ''ns'' ''box''
        (snd (Reconcile exampleReconciler exampleHelper ''ns'' ''box''
          (snd (Reconcile exampleReconciler exampleHelper ''ns'' ''box'' stoppedProxyWorld)))) =
      Some ''thirdhost.example.com''
   \<and> ingress_hosts ''ns'' ''box-proxy-ingress''
        (snd (Reconcile exampleReconciler exampleHelper ''ns'' ''box''
          (snd (Reconcile exampleReconciler exampleHelper ''ns'' ''box'' stoppedProxyWorld)))) =
      [''firsthost.example.com'']"
  by code_simp


section \<open>The proxy deployment and the proxy ingress\<close>

lemma proxy_tick [simp]: "proxy_objects (tick a w) = proxy_objects w"
  by (simp add: proxy_objects_def)

lemma proxy_Eventf [simp]: "proxy_objects (Eventf t m x w) = proxy_objects w"
  by (simp add: proxy_objects_def)

lemma proxy_upd [simp]:
  "proxy_objects (devboxes_update a w) = proxy_objects w" "proxy_objects (secrets_update b w) = proxy_objects w"
  "proxy_objects (pods_update c w) = proxy_objects w" "proxy_objects (services_update d w) = proxy_objects w"
  "proxy_objects (randoms_update g w) = proxy_objects w" "proxy_objects (clock_update i w) = proxy_objects w"
  "proxy_objects (nodePorts_update j w) = proxy_objects w" "proxy_objects (keypairs_update k w) = proxy_objects w"
  by (simp_all add: proxy_objects_def)

lemma proxy_Get_Devbox [simp]: "proxy_objects (snd (Get_Devbox ns n w)) = proxy_objects w"
  by (simp add: Get_Devbox_def client_Get_def split: option.splits)

lemma proxy_Get_Runtime [simp]: "proxy_objects (snd (getRuntime d w)) = proxy_objects w"
  by (simp add: getRuntime_def Get_Runtime_def client_Get_def split: option.splits)

lemma proxy_List_Pod [simp]: "proxy_objects (snd (List_Pod ns sel w)) = proxy_objects w"
  by (simp add: List_Pod_def client_List_def split: option.splits)

lemma proxy_Status_Update [simp]: "proxy_objects (snd (Status_Update x w)) = proxy_objects w"
  by (simp add: Status_Update_def split: option.splits sum.splits)

lemma proxy_Update_Devbox [simp]: "proxy_objects (snd (Update_Devbox x w)) = proxy_objects w"
  by (simp add: Update_Devbox_def client_Update_def split: option.splits sum.splits)

lemma proxy_Update_Pod [simp]: "proxy_objects (snd (Update_Pod x w)) = proxy_objects w"
  by (simp add: Update_Pod_def client_Update_def split: option.splits sum.splits)

lemma proxy_Create_Pod [simp]: "proxy_objects (snd (Create_Pod x w)) = proxy_objects w"
  by (simp add: Create_Pod_def client_Create_def split: option.splits sum.splits)

lemma proxy_Delete_Pod [simp]: "proxy_objects (snd (Delete_Pod x w)) = proxy_objects w"
  by (simp add: Delete_Pod_def client_Delete_def split: option.splits sum.splits)

lemma proxy_generateNextCommitHistory [simp]:
  "proxy_objects (snd (generateNextCommitHistory r h d w)) = proxy_objects w"
  by (simp add: generateNextCommitHistory_world)

lemma proxy_createPod [simp]: "proxy_objects (snd (snd (createPod d p c w))) = proxy_objects w"
  by (simp add: createPod_def case_prod_beta split: sum.splits)

lemma proxy_deletePod [simp]: "proxy_objects (snd (snd (snd (deletePod h d p w)))) = proxy_objects w"
  by (simp add: deletePod_def case_prod_beta split: sum.splits option.splits list.splits)

lemma proxy_handlePodDeleted [simp]:
  "proxy_objects (snd (snd (snd (handlePodDeleted h d p w)))) = proxy_objects w"
  by (simp add: handlePodDeleted_def case_prod_beta split: sum.splits option.splits list.splits)

lemma proxy_syncPod_create [simp]:
  "proxy_objects (snd (snd (snd (syncPod_create h d p c w)))) = proxy_objects w"
  by (simp add: syncPod_create_def case_prod_beta split: sum.splits option.splits)

lemma with_pod_world [simp]: "snd (snd (snd (with_pod x))) = snd (snd (snd x))"
  by (simp add: with_pod_def case_prod_beta)

lemma proxy_syncPod_running_pod [simp]:
  "proxy_objects (snd (snd (snd (syncPod_running_pod h d e p w)))) = proxy_objects w"
  by (simp add: syncPod_running_pod_def Let_def split: list.splits PodPhase.splits)

lemma proxy_syncPod_Running [simp]:
  "proxy_objects (snd (snd (snd (syncPod_Running r h d items w)))) = proxy_objects w"
  by (simp add: syncPod_Running_def case_prod_beta split: sum.splits list.splits)

lemma proxy_syncPod_Stopped [simp]:
  "proxy_objects (snd (snd (snd (syncPod_Stopped h d items w)))) = proxy_objects w"
  by (simp add: syncPod_Stopped_def Let_def split: list.splits)

lemma proxy_syncPod_switch [simp]:
  "proxy_objects (snd (snd (snd (syncPod_switch r h d items w)))) = proxy_objects w"
  by (simp add: syncPod_switch_def split: DevboxState.splits)

lemma proxy_syncPod_deferred_fn [simp]:
  "proxy_objects (snd (snd (syncPod_deferred_fn h items d w))) = proxy_objects w"
  by (simp add: syncPod_deferred_fn_def case_prod_beta Let_def split: sum.splits)

lemma proxy_OnError:
  assumes "\<And>s w. proxy_objects (snd (snd (fn s w))) = proxy_objects w"
  shows "proxy_objects (snd (snd (OnError k rt fn le s w))) = proxy_objects w"
  using OnError_preserves[where I = "\<lambda>s v. proxy_objects v = proxy_objects w" and fn = fn and s = s and w = w]
    assms by simp

lemma proxy_syncPod_deferred [simp]:
  "proxy_objects (snd (syncPod_deferred h items d w)) = proxy_objects w"
  by (simp add: syncPod_deferred_def RetryOnConflict_def case_prod_beta proxy_OnError
      split: option.splits failure.splits)

lemma proxy_syncPod [simp]:
  "proxy_objects (snd (snd (syncPod r h d sel w))) = proxy_objects w"
  by (simp add: syncPod_def case_prod_beta split: sum.splits)

lemma proxy_syncPod_fn [simp]:
  "proxy_objects (snd (snd (syncPod_fn r h ns n sel d w))) = proxy_objects w"
  by (simp add: syncPod_fn_def case_prod_beta split: sum.splits)

lemma proxy_Reconcile_pod [simp]:
  "proxy_objects (snd (Reconcile_pod r h ns n d sel w)) = proxy_objects w"
  by (simp add: Reconcile_pod_def RetryOnConflict_def case_prod_beta proxy_OnError
      split: option.splits failure.splits)

lemma honest_tick [simp]: "honest w \<Longrightarrow> honest (tick a w)"
  by (cases "script w") (simp_all add: honest_def)

lemma honest_upd [simp]:
  "honest (devboxes_update a w) = honest w" "honest (secrets_update b w) = honest w"
  "honest (pods_update c w) = honest w" "honest (services_update d w) = honest w"
  "honest (deployments_update e w) = honest w" "honest (ingresses_update f w) = honest w"
  "honest (randoms_update g w) = honest w" "honest (clock_update i w) = honest w"
  "honest (nodePorts_update j w) = honest w" "honest (keypairs_update k w) = honest w"
  "honest (trace_update l w) = honest w" "honest (Eventf t m x w) = honest w"
  by (simp_all add: honest_def Eventf_def)


lemma honest_client_Get [simp]: "honest w \<Longrightarrow> honest (snd (client_Get k sel ns n w))"
  by (simp add: client_Get_def split: option.splits)

lemma honest_getRuntime [simp]: "honest w \<Longrightarrow> honest (snd (getRuntime d w))"
  by (simp add: getRuntime_def Get_Runtime_def)

lemma honest_getServicePort [simp]: "honest w \<Longrightarrow> honest (snd (getServicePort d w))"
  by (simp add: getServicePort_def case_prod_beta split: sum.splits)

lemma honest_Status_Update [simp]: "honest w \<Longrightarrow> honest (snd (Status_Update x w))"
  by (simp add: Status_Update_def split: option.splits sum.splits)

lemma honest_Get_Service [simp]: "honest w \<Longrightarrow> honest (snd (Get_Service ns n w))"
  by (simp add: Get_Service_def)

lemma honest_Create_Service [simp]: "honest w \<Longrightarrow> honest (snd (Create_Service x w))"
  by (simp add: Create_Service_def client_Create_def case_prod_beta split: option.splits sum.splits)

lemma honest_Update_Service [simp]: "honest w \<Longrightarrow> honest (snd (Update_Service x w))"
  by (simp add: Update_Service_def client_Update_def case_prod_beta split: option.splits sum.splits)

lemma honest_CreateOrUpdate_Service [simp]:
  "honest w \<Longrightarrow> honest (snd (CreateOrUpdate_Service x f w))"
  by (simp add: CreateOrUpdate_Service_def case_prod_beta split: sum.splits)

lemma honest_syncPodSvc [simp]: "honest w \<Longrightarrow> honest (snd (syncPodSvc h d sel sp w))"
  by (simp add: syncPodSvc_def case_prod_beta split: sum.splits)

lemma honest_syncProxySvc [simp]: "honest w \<Longrightarrow> honest (snd (syncProxySvc h d w))"
  by (simp add: syncProxySvc_def case_prod_beta split: sum.splits)

lemma proxy_getServicePort [simp]: "proxy_objects (snd (getServicePort d w)) = proxy_objects w"
  by (simp add: getServicePort_def case_prod_beta split: sum.splits)

lemma proxy_Get_Service [simp]: "proxy_objects (snd (Get_Service ns n w)) = proxy_objects w"
  by (simp add: Get_Service_def client_Get_def split: option.splits)

lemma proxy_Create_Service [simp]: "proxy_objects (snd (Create_Service x w)) = proxy_objects w"
  by (simp add: Create_Service_def client_Create_def case_prod_beta split: option.splits sum.splits)

lemma proxy_Update_Service [simp]: "proxy_objects (snd (Update_Service x w)) = proxy_objects w"
  by (simp add: Update_Service_def client_Update_def case_prod_beta split: option.splits sum.splits)

lemma proxy_CreateOrUpdate_Service [simp]:
  "proxy_objects (snd (CreateOrUpdate_Service x f w)) = proxy_objects w"
  by (simp add: CreateOrUpdate_Service_def case_prod_beta split: sum.splits)

lemma proxy_syncPodSvc [simp]: "proxy_objects (snd (syncPodSvc h d sel sp w)) = proxy_objects w"
  by (simp add: syncPodSvc_def case_prod_beta split: sum.splits)

lemma proxy_syncProxySvc [simp]: "proxy_objects (snd (syncProxySvc h d w)) = proxy_objects w"
  by (simp add: syncProxySvc_def case_prod_beta split: sum.splits)

lemma devboxes_getServicePort [simp]: "devboxes (snd (getServicePort d w)) = devboxes w"
  by (simp add: getServicePort_def getRuntime_def Get_Runtime_def client_Get_def case_prod_beta
      split: sum.splits option.splits)







lemma honest_rand_String [simp]: "honest (snd (rand_String k w)) = honest w"
  by (simp add: rand_String_world)



lemma honest_Get_Devbox [simp]: "honest w \<Longrightarrow> honest (snd (Get_Devbox ns n w))"
  by (simp add: Get_Devbox_def)

lemma honest_Update_Devbox [simp]: "honest w \<Longrightarrow> honest (snd (Update_Devbox x w))"
  by (simp add: Update_Devbox_def client_Update_def split: option.splits sum.splits)

lemma honest_Get_Secret [simp]: "honest w \<Longrightarrow> honest (snd (Get_Secret ns n w))"
  by (simp add: Get_Secret_def)

lemma honest_Update_Secret [simp]: "honest w \<Longrightarrow> honest (snd (Update_Secret x w))"
  by (simp add: Update_Secret_def client_Update_def split: option.splits sum.splits)

lemma honest_Create_Secret [simp]: "honest w \<Longrightarrow> honest (snd (Create_Secret x w))"
  by (simp add: Create_Secret_def client_Create_def split: option.splits sum.splits)

lemma honest_GenerateSSHKeyPair [simp]: "honest (snd (GenerateSSHKeyPair w)) = honest w"
  by (simp add: GenerateSSHKeyPair_def split: list.splits)

lemma honest_backfillJWTSecret [simp]: "honest w \<Longrightarrow> honest (snd (backfillJWTSecret x w))"
  by (simp add: backfillJWTSecret_def case_prod_beta split: sum.splits option.splits)

lemma honest_backfillAuthorizedKeys [simp]: "honest w \<Longrightarrow> honest (snd (backfillAuthorizedKeys x w))"
  by (simp add: backfillAuthorizedKeys_def case_prod_beta split: sum.splits option.splits)

lemma honest_createSecret [simp]: "honest w \<Longrightarrow> honest (snd (createSecret d l w))"
  by (simp add: createSecret_def case_prod_beta split: sum.splits option.splits)

lemma honest_syncSecret [simp]: "honest w \<Longrightarrow> honest (snd (syncSecret d l w))"
  by (simp add: syncSecret_def case_prod_beta split: sum.splits option.splits)

lemma honest_addFinalizer_fn [simp]: "honest w \<Longrightarrow> honest (snd (snd (addFinalizer_fn h ns n u w)))"
  by (simp add: addFinalizer_fn_def case_prod_beta split: sum.splits)


text \<open>The secret step writes secrets only.\<close>

lemma frame_Get_Secret [simp]:
  "proxy_objects (snd (Get_Secret ns n w)) = proxy_objects w"
  "devboxes (snd (Get_Secret ns n w)) = devboxes w"
  by (simp_all add: Get_Secret_def client_Get_def split: option.splits)

lemma frame_Update_Secret [simp]:
  "proxy_objects (snd (Update_Secret x w)) = proxy_objects w"
  "devboxes (snd (Update_Secret x w)) = devboxes w"
  by (simp_all add: Update_Secret_def client_Update_def split: option.splits sum.splits)

lemma frame_Create_Secret [simp]:
  "proxy_objects (snd (Create_Secret x w)) = proxy_objects w"
  "devboxes (snd (Create_Secret x w)) = devboxes w"
  by (simp_all add: Create_Secret_def client_Create_def split: option.splits sum.splits)

lemma frame_GenerateSSHKeyPair [simp]:
  "proxy_objects (snd (GenerateSSHKeyPair w)) = proxy_objects w"
  "devboxes (snd (GenerateSSHKeyPair w)) = devboxes w"
  by (simp_all add: GenerateSSHKeyPair_def proxy_objects_def split: list.splits)

lemma frame_rand_String [simp]:
  "proxy_objects (snd (rand_String k w)) = proxy_objects w"
  "devboxes (snd (rand_String k w)) = devboxes w"
  by (simp_all add: rand_String_world proxy_objects_def)

lemma frame_backfillJWTSecret [simp]:
  "proxy_objects (snd (backfillJWTSecret x w)) = proxy_objects w"
  "devboxes (snd (backfillJWTSecret x w)) = devboxes w"
  by (simp_all add: backfillJWTSecret_def case_prod_beta split: sum.splits option.splits)

lemma frame_backfillAuthorizedKeys [simp]:
  "proxy_objects (snd (backfillAuthorizedKeys x w)) = proxy_objects w"
  "devboxes (snd (backfillAuthorizedKeys x w)) = devboxes w"
  by (simp_all add: backfillAuthorizedKeys_def case_prod_beta split: sum.splits option.splits)

lemma frame_createSecret [simp]:
  "proxy_objects (snd (createSecret d l w)) = proxy_objects w"
  "devboxes (snd (createSecret d l w)) = devboxes w"
  by (simp_all add: createSecret_def case_prod_beta split: sum.splits option.splits)

lemma frame_syncSecret [simp]:
  "proxy_objects (snd (syncSecret d l w)) = proxy_objects w"
  "devboxes (snd (syncSecret d l w)) = devboxes w"
  by (simp_all add: syncSecret_def case_prod_beta split: sum.splits option.splits)

lemma proxy_addFinalizer_fn [simp]:
  "proxy_objects (snd (snd (addFinalizer_fn h ns n u w))) = proxy_objects w"
  by (simp add: addFinalizer_fn_def case_prod_beta split: sum.splits)

text \<open>The spec of the stored devbox through the calls that write devboxes.\<close>

lemma stored_spec_tick [simp]: "stored_spec ns n sp (tick a w) = stored_spec ns n sp w"
  by (simp add: stored_spec_def)

lemma stored_spec_Eventf [simp]: "stored_spec ns n sp (Eventf t m x w) = stored_spec ns n sp w"
  by (simp add: stored_spec_def)




lemma honest_time_Now [simp]: "honest (snd (time_Now w)) = honest w"
  by (simp add: time_Now_world)

lemma frame_time_Now [simp]:
  "proxy_objects (snd (time_Now w)) = proxy_objects w"
  by (simp add: time_Now_world proxy_objects_def)

lemma honest_generateProxyPodDeployment [simp]:
  "honest w \<Longrightarrow> honest (snd (generateProxyPodDeployment r h d sp w))"
  by (simp add: generateProxyPodDeployment_def generateProxyPodEnv_def generateProxyPodJWT_def
      generateProxyPodName_def case_prod_beta Let_def split: sum.splits)

lemma proxy_generateProxyPodDeployment [simp]:
  "proxy_objects (snd (generateProxyPodDeployment r h d sp w)) = proxy_objects w"
  by (simp add: generateProxyPodDeployment_def generateProxyPodEnv_def generateProxyPodJWT_def
      generateProxyPodName_def case_prod_beta Let_def split: sum.splits)












end
